theory Spec2Isabelle
  imports Main
begin

section \<open>Values exchanged with clients\<close>

text \<open>
  The server of \<^verbatim>\<open>src/server.js\<close> is an Express application over three Mongoose models.
  Identifiers are MongoDB ObjectIds; only their identity matters, so they are numbers here.
  JSON numbers are kept as integers (no handler computes with them).
\<close>

type_synonym objectId = nat

datatype json =
    JNull
  | JBool bool
  | JNum int
  | JStr string
  | JOid objectId
  | JArr "json list"
  | JObj "(string \<times> json) list"

text \<open>
  A field of a request body is a JSON value or is absent (\<open>undefined\<close> after destructuring
  \<^verbatim>\<open>req.body\<close>). \<open>typeof\<close> is JavaScript's operator on such a field.
\<close>

fun typeof :: "json option \<Rightarrow> string" where
  "typeof None = ''undefined''"
| "typeof (Some (JStr s)) = ''string''"
| "typeof (Some (JNum n)) = ''number''"
| "typeof (Some (JBool b)) = ''boolean''"
| "typeof (Some v) = ''object''"

text \<open>
  An identifier arrives as text (\<^verbatim>\<open>req.params.id\<close>, \<^verbatim>\<open>req.body.seriesId\<close>). Mongoose casts it
  to an ObjectId before it queries; text that is no ObjectId makes the query reject with a
  CastError. The text is represented by what the cast makes of it.
\<close>

datatype id_param = ObjectIdText objectId | OtherText string

definition castObjectId :: "id_param \<Rightarrow> string + objectId" where
  "castObjectId p =
     (case p of
        ObjectIdText i \<Rightarrow> Inr i
      | OtherText s \<Rightarrow> Inl (''Cast to ObjectId failed for value '' @ s))"

datatype body = Text string | Json json

text \<open>
  What a handler does with a request: it sends a response (status and body), or its promise
  rejects with nothing sent (an exception that no \<^verbatim>\<open>try\<close> of the handler covers).
\<close>

datatype outcome = Responded nat body | Rejected string

section \<open>The store: three collections behind one connection\<close>

text \<open>\<^verbatim>\<open>SeriesSchema\<close>, \<^verbatim>\<open>ProductSchema\<close> and \<^verbatim>\<open>UserSchema\<close> (lines 26-54).\<close>

record series_doc =
  s_id :: objectId
  s_name :: string

record product_fields =
  name :: "string option"
  capacity :: "string option"
  color :: "string option"
  code :: "string option"
  battery :: "string option"
  condition :: "string option"
  sellingPrice :: "int option"
  purchasePrice :: "int option"
  source :: "string option"

record product_doc = product_fields +
  p_id :: objectId
  series :: objectId

record user_doc =
  u_id :: objectId
  username :: string
  password :: string

text \<open>
  \<open>conn_error\<close> is the state of the connection opened at line 18: a failure to connect is
  logged and the process keeps serving, every operation then rejecting with the driver's
  message.
\<close>

record store =
  conn_error :: "string option"
  Series_docs :: "series_doc list"
  Product_docs :: "product_doc list"
  User_docs :: "user_doc list"

text \<open>
  The operations a handler awaits are recorded in the order it issues them, so that a
  statement can say which queries a request performed.
\<close>

datatype db_op =
    FindById string id_param
  | FindOne string string
  | Find string "id_param option"
  | Save string

record world =
  db :: store
  issued :: "db_op list"

definition log_op :: "db_op \<Rightarrow> world \<Rightarrow> world" where
  "log_op op w = w\<lparr>issued := issued w @ [op]\<rparr>"

text \<open>
  \<^verbatim>\<open>new Model(...)\<close> gives the document an ObjectId that no stored document has. The driver's
  generator is replaced by a deterministic one with that property.
\<close>

definition all_ids :: "store \<Rightarrow> objectId list" where
  "all_ids st =
     map s_id (Series_docs st) @ map p_id (Product_docs st) @ map u_id (User_docs st)"

definition newObjectId :: "store \<Rightarrow> objectId" where
  "newObjectId st = Suc (foldr max (all_ids st) 0)"

text \<open>
  \<^verbatim>\<open>required: true\<close> on a String path: the validator of \<^verbatim>\<open>save()\<close> refuses an empty string as
  it refuses a missing value.
\<close>

definition required_ok :: "string \<Rightarrow> bool" where
  "required_ok v = (v \<noteq> [])"

subsection \<open>Series\<close>

definition Series_find :: "world \<Rightarrow> (string + series_doc list) \<times> world" where
  "Series_find w =
     (let w' = log_op (Find ''Series'' None) w in
      case conn_error (db w) of
        Some e \<Rightarrow> (Inl e, w')
      | None \<Rightarrow> (Inr (Series_docs (db w)), w'))"

definition Series_findById :: "id_param \<Rightarrow> world \<Rightarrow> (string + series_doc option) \<times> world" where
  "Series_findById p w =
     (let w' = log_op (FindById ''Series'' p) w in
      case castObjectId p of
        Inl e \<Rightarrow> (Inl e, w')
      | Inr i \<Rightarrow>
          (case conn_error (db w) of
             Some e \<Rightarrow> (Inl e, w')
           | None \<Rightarrow> (Inr (find (\<lambda>s. s_id s = i) (Series_docs (db w))), w')))"

text \<open>
  \<^verbatim>\<open>save()\<close> validates the document, then inserts it; the unique index on \<open>name\<close> refuses a
  second document of the same name.
\<close>

definition Series_save :: "series_doc \<Rightarrow> world \<Rightarrow> (string + unit) \<times> world" where
  "Series_save d w =
     (let w' = log_op (Save ''Series'') w in
      if \<not> required_ok (s_name d) then
        (Inl ''Series validation failed: name: Path name is required.'', w')
      else
        (case conn_error (db w) of
           Some e \<Rightarrow> (Inl e, w')
         | None \<Rightarrow>
             if s_name d \<in> set (map s_name (Series_docs (db w))) then
               (Inl ''E11000 duplicate key error collection: series index: name_1'', w')
             else
               (Inr (), w'\<lparr>db := (db w)\<lparr>Series_docs := Series_docs (db w) @ [d]\<rparr>\<rparr>)))"

subsection \<open>Product\<close>

text \<open>
  \<^verbatim>\<open>.populate('series', 'name')\<close> replaces the reference of a product by the referenced
  Series, projected to its name (and \<open>_id\<close>), or by null when no Series has that id.
\<close>

definition populate :: "store \<Rightarrow> product_doc \<Rightarrow> product_doc \<times> series_doc option" where
  "populate st p = (p, find (\<lambda>s. s_id s = series p) (Series_docs st))"

definition Product_find :: "world \<Rightarrow> (string + (product_doc \<times> series_doc option) list) \<times> world" where
  "Product_find w =
     (let w' = log_op (Find ''Product'' None) w in
      case conn_error (db w) of
        Some e \<Rightarrow> (Inl e, w')
      | None \<Rightarrow> (Inr (map (populate (db w)) (Product_docs (db w))), w'))"

definition Product_find_series ::
  "id_param \<Rightarrow> world \<Rightarrow> (string + (product_doc \<times> series_doc option) list) \<times> world" where
  "Product_find_series q w =
     (let w' = log_op (Find ''Product'' (Some q)) w in
      case castObjectId q of
        Inl e \<Rightarrow> (Inl e, w')
      | Inr i \<Rightarrow>
          (case conn_error (db w) of
             Some e \<Rightarrow> (Inl e, w')
           | None \<Rightarrow>
               (Inr (map (populate (db w)) (filter (\<lambda>p. series p = i) (Product_docs (db w)))),
                w')))"

definition Product_findById ::
  "id_param \<Rightarrow> world \<Rightarrow> (string + (product_doc \<times> series_doc option) option) \<times> world" where
  "Product_findById q w =
     (let w' = log_op (FindById ''Product'' q) w in
      case castObjectId q of
        Inl e \<Rightarrow> (Inl e, w')
      | Inr i \<Rightarrow>
          (case conn_error (db w) of
             Some e \<Rightarrow> (Inl e, w')
           | None \<Rightarrow>
               (Inr (map_option (populate (db w))
                       (find (\<lambda>p. p_id p = i) (Product_docs (db w)))),
                w')))"

definition Product_save :: "product_doc \<Rightarrow> world \<Rightarrow> (string + unit) \<times> world" where
  "Product_save d w =
     (let w' = log_op (Save ''Product'') w in
      case conn_error (db w) of
        Some e \<Rightarrow> (Inl e, w')
      | None \<Rightarrow> (Inr (), w'\<lparr>db := (db w)\<lparr>Product_docs := Product_docs (db w) @ [d]\<rparr>\<rparr>))"

subsection \<open>User\<close>

definition User_findOne :: "string \<Rightarrow> world \<Rightarrow> (string + user_doc option) \<times> world" where
  "User_findOne u w =
     (let w' = log_op (FindOne ''User'' u) w in
      case conn_error (db w) of
        Some e \<Rightarrow> (Inl e, w')
      | None \<Rightarrow> (Inr (find (\<lambda>d. username d = u) (User_docs (db w))), w'))"

text \<open>Both paths of a User are required, and the index on \<open>username\<close> is unique.\<close>

definition User_save :: "user_doc \<Rightarrow> world \<Rightarrow> (string + unit) \<times> world" where
  "User_save d w =
     (let w' = log_op (Save ''User'') w in
      if \<not> required_ok (username d) then
        (Inl ''User validation failed: username: Path username is required.'', w')
      else if \<not> required_ok (password d) then
        (Inl ''User validation failed: password: Path password is required.'', w')
      else
        (case conn_error (db w) of
           Some e \<Rightarrow> (Inl e, w')
         | None \<Rightarrow>
             if username d \<in> set (map username (User_docs (db w))) then
               (Inl ''E11000 duplicate key error collection: users index: username_1'', w')
             else
               (Inr (), w'\<lparr>db := (db w)\<lparr>User_docs := User_docs (db w) @ [d]\<rparr>\<rparr>)))"

section \<open>The libraries for passwords and tokens\<close>

text \<open>
  \<^verbatim>\<open>bcryptjs\<close> and \<^verbatim>\<open>jsonwebtoken\<close> are not code of this repository. The handlers take them
  as a parameter; what a statement needs of them is a hypothesis on that parameter.
  The salt that \<^verbatim>\<open>bcrypt.hash\<close> draws, the clock that \<^verbatim>\<open>jwt.sign\<close> and \<^verbatim>\<open>jwt.verify\<close> read
  (in seconds) and \<^verbatim>\<open>process.env.JWT_SECRET\<close> are the environment of a request.
\<close>

record claims =
  claim_id :: objectId
  claim_username :: string
  iat :: nat
  exp :: nat

record crypto =
  bcrypt_hash :: "string \<Rightarrow> nat \<Rightarrow> string \<Rightarrow> string"
  bcrypt_compare :: "string \<Rightarrow> string \<Rightarrow> bool"
  jwt_sign :: "objectId \<times> string \<Rightarrow> string \<Rightarrow> nat \<Rightarrow> nat \<Rightarrow> string"
  jwt_verify :: "string \<Rightarrow> string \<Rightarrow> nat \<Rightarrow> string + claims"

record env =
  JWT_SECRET :: string
  now :: nat
  salt :: string

text \<open>
  Both functions of \<^verbatim>\<open>bcryptjs\<close> reject with \<open>Illegal arguments\<close> when the password is not a
  JavaScript string.
\<close>

definition bcrypt_hash_js :: "crypto \<Rightarrow> json option \<Rightarrow> nat \<Rightarrow> string \<Rightarrow> string + string" where
  "bcrypt_hash_js lib s rounds slt =
     (case s of
        Some (JStr p) \<Rightarrow> Inr (bcrypt_hash lib p rounds slt)
      | _ \<Rightarrow> Inl (''Illegal arguments: '' @ typeof s @ '', number''))"

definition bcrypt_compare_js :: "crypto \<Rightarrow> json option \<Rightarrow> string \<Rightarrow> string + bool" where
  "bcrypt_compare_js lib s h =
     (case s of
        Some (JStr p) \<Rightarrow> Inr (bcrypt_compare lib p h)
      | _ \<Rightarrow> Inl (''Illegal arguments: '' @ typeof s @ '', string''))"

text \<open>
  \<^verbatim>\<open>jwt.sign\<close> throws when the key it is given is empty or undefined; the empty string of
  \<open>JWT_SECRET\<close> stands for both (a variable that is empty or not set).
\<close>

definition jwt_sign_js ::
  "crypto \<Rightarrow> objectId \<times> string \<Rightarrow> string \<Rightarrow> nat \<Rightarrow> nat \<Rightarrow> string + string" where
  "jwt_sign_js lib payload k ttl t =
     (if k = [] then Inl ''secretOrPrivateKey must have a value''
      else Inr (jwt_sign lib payload k ttl t))"

text \<open>
  What the statements below ask of \<^verbatim>\<open>bcryptjs\<close>: a hash is a non-empty string, and a
  password compares equal to every hash made of it.
\<close>

definition bcrypt_contract :: "crypto \<Rightarrow> bool" where
  "bcrypt_contract lib =
     (\<forall>p r s. bcrypt_hash lib p r s \<noteq> [] \<and> bcrypt_compare lib p (bcrypt_hash lib p r s))"

text \<open>
  What they ask of \<^verbatim>\<open>jsonwebtoken\<close>: a token signed at time \<open>t\<close> to live \<open>ttl\<close> seconds is a
  non-empty string; verified with the same secret it decodes to its payload with
  \<open>iat = t\<close> and \<open>exp = t + ttl\<close> at every time before \<open>exp\<close>, and is refused from \<open>exp\<close> on.
\<close>

definition jwt_contract :: "crypto \<Rightarrow> bool" where
  "jwt_contract lib =
     (\<forall>i u k ttl t t'.
        jwt_sign lib (i, u) k ttl t \<noteq> [] \<and>
        (t' < t + ttl \<longrightarrow>
           jwt_verify lib (jwt_sign lib (i, u) k ttl t) k t' =
             Inr \<lparr>claim_id = i, claim_username = u, iat = t, exp = t + ttl\<rparr>) \<and>
        (t + ttl \<le> t' \<longrightarrow> isl (jwt_verify lib (jwt_sign lib (i, u) k ttl t) k t')))"

text \<open>
  The same for non-empty keys only. With an empty key \<^verbatim>\<open>jwt.sign\<close> returns nothing, so this
  is the form that \<^verbatim>\<open>jsonwebtoken\<close> itself meets; the statement about login assumes no more.
\<close>

definition jwt_keyed_contract :: "crypto \<Rightarrow> bool" where
  "jwt_keyed_contract lib =
     (\<forall>i u k ttl t t'. k \<noteq> [] \<longrightarrow>
        jwt_sign lib (i, u) k ttl t \<noteq> [] \<and>
        (t' < t + ttl \<longrightarrow>
           jwt_verify lib (jwt_sign lib (i, u) k ttl t) k t' =
             Inr \<lparr>claim_id = i, claim_username = u, iat = t, exp = t + ttl\<rparr>) \<and>
        (t + ttl \<le> t' \<longrightarrow> isl (jwt_verify lib (jwt_sign lib (i, u) k ttl t) k t')))"

text \<open>
  A token is three base64url segments joined by dots; \<^verbatim>\<open>jwt.verify\<close> refuses a string with
  any other character in it.
\<close>

definition jws_char :: "char \<Rightarrow> bool" where
  "jws_char c =
     (c \<in> set ''ABCDEFGHIJKLMNOPQRSTUVWXYZabcdefghijklmnopqrstuvwxyz0123456789-_.'')"

definition jwt_compact_only :: "crypto \<Rightarrow> bool" where
  "jwt_compact_only lib =
     (\<forall>s k t. \<not> list_all jws_char s \<longrightarrow> isl (jwt_verify lib s k t))"

section \<open>Handlers\<close>

subsection \<open>Series routes\<close>

text \<open>\<^verbatim>\<open>POST /api/series\<close> (lines 232-243).\<close>

definition post_series :: "string \<Rightarrow> world \<Rightarrow> outcome \<times> world" where
  "post_series name' w =
     (let newSeries = \<lparr>s_id = newObjectId (db w), s_name = name'\<rparr> in
      case Series_save newSeries w of
        (Inr u, w') \<Rightarrow> (Responded 201 (Text ''Series created successfully''), w')
      | (Inl err, w') \<Rightarrow> (Responded 500 (Text err), w'))"

definition series_toJSON :: "series_doc \<Rightarrow> json" where
  "series_toJSON s = JObj [(''_id'', JOid (s_id s)), (''name'', JStr (s_name s))]"

text \<open>\<^verbatim>\<open>GET /api/series\<close>, the declaration of lines 445-452.\<close>

definition get_series_first :: "world \<Rightarrow> outcome \<times> world" where
  "get_series_first w =
     (case Series_find w of
        (Inr series', w') \<Rightarrow> (Responded 200 (Json (JArr (map series_toJSON series'))), w')
      | (Inl err, w') \<Rightarrow> (Responded 500 (Text err), w'))"

text \<open>\<^verbatim>\<open>GET /api/series\<close>, the declaration of lines 454-461.\<close>

definition get_series_second :: "world \<Rightarrow> outcome \<times> world" where
  "get_series_second w =
     (case Series_find w of
        (Inr series', w') \<Rightarrow> (Responded 200 (Json (JArr (map series_toJSON series'))), w')
      | (Inl err, w') \<Rightarrow> (Responded 500 (Text err), w'))"

text \<open>\<^verbatim>\<open>GET /api/series/:id\<close> (lines 496-506).\<close>

definition get_series_by_id :: "id_param \<Rightarrow> world \<Rightarrow> outcome \<times> world" where
  "get_series_by_id id' w =
     (case Series_findById id' w of
        (Inl err, w') \<Rightarrow> (Responded 500 (Text err), w')
      | (Inr None, w') \<Rightarrow> (Responded 404 (Text ''Series not found''), w')
      | (Inr (Some s), w') \<Rightarrow>
          (Responded 200 (Json (JObj [(''_id'', JOid (s_id s)), (''name'', JStr (s_name s))])), w'))"

subsection \<open>Authentication routes\<close>

text \<open>\<^verbatim>\<open>POST /api/register\<close> (lines 147-162). The hash is awaited before the \<^verbatim>\<open>try\<close>.\<close>

definition post_register ::
  "crypto \<Rightarrow> env \<Rightarrow> string \<Rightarrow> json option \<Rightarrow> world \<Rightarrow> outcome \<times> world" where
  "post_register lib e username' password' w =
     (case bcrypt_hash_js lib password' 10 (salt e) of
        Inl err \<Rightarrow> (Rejected err, w)
      | Inr hashedPassword \<Rightarrow>
          (let newUser =
                 \<lparr>u_id = newObjectId (db w), username = username', password = hashedPassword\<rparr>
           in case User_save newUser w of
                (Inr u, w') \<Rightarrow> (Responded 201 (Text ''User registered''), w')
              | (Inl err, w') \<Rightarrow> (Responded 500 (Text err), w')))"

text \<open>
  \<^verbatim>\<open>POST /api/login\<close> (lines 190-208); \<^verbatim>\<open>expiresIn: '1h'\<close> is 3600 seconds. The lookup, the
  comparison and the signing all stand inside the \<^verbatim>\<open>try\<close>: what any of them throws is
  answered 500 by the \<^verbatim>\<open>catch\<close>.
\<close>

definition post_login ::
  "crypto \<Rightarrow> env \<Rightarrow> string \<Rightarrow> json option \<Rightarrow> world \<Rightarrow> outcome \<times> world" where
  "post_login lib e username' password' w =
     (case User_findOne username' w of
        (Inl err, w') \<Rightarrow> (Responded 500 (Text err), w')
      | (Inr None, w') \<Rightarrow> (Responded 400 (Text ''User not found''), w')
      | (Inr (Some user'), w') \<Rightarrow>
          (case bcrypt_compare_js lib password' (password user') of
             Inl err \<Rightarrow> (Responded 500 (Text err), w')
           | Inr validPassword \<Rightarrow>
               if \<not> validPassword then (Responded 400 (Text ''Invalid password''), w')
               else
                 (case jwt_sign_js lib (u_id user', username user') (JWT_SECRET e) 3600
                         (now e) of
                    Inl err \<Rightarrow> (Responded 500 (Text err), w')
                  | Inr token \<Rightarrow>
                      (Responded 200 (Json (JObj [(''token'', JStr token)])), w'))))"

subsection \<open>The token middleware\<close>

record request =
  authorization :: "string option"
  user :: "claims option"

text \<open>A middleware ends the request with a response or hands it on by calling \<^verbatim>\<open>next()\<close>.\<close>

datatype middleware_result = Reply outcome | Next request

text \<open>
  \<^verbatim>\<open>verifyToken\<close> (lines 57-66). \<^verbatim>\<open>!token\<close> holds for a missing header and for an empty one.
  The header's value goes to \<^verbatim>\<open>jwt.verify\<close> as it is.
\<close>

definition verifyToken :: "crypto \<Rightarrow> env \<Rightarrow> request \<Rightarrow> middleware_result" where
  "verifyToken lib e req =
     (case authorization req of
        None \<Rightarrow> Reply (Responded 403 (Text ''Token is required''))
      | Some token \<Rightarrow>
          if token = [] then Reply (Responded 403 (Text ''Token is required''))
          else
            (case jwt_verify lib token (JWT_SECRET e) (now e) of
               Inl err \<Rightarrow> Reply (Responded 500 (Text ''Invalid Token''))
             | Inr decoded \<Rightarrow> Next (req\<lparr>user := Some decoded\<rparr>)))"

subsection \<open>Product routes\<close>

text \<open>
  A document is sent as the object of its \<open>_id\<close> and of the paths it has a value for, in
  the schema's order; the populated reference is an object of \<open>_id\<close> and \<open>name\<close>.
\<close>

definition opt_field :: "string \<Rightarrow> ('a \<Rightarrow> json) \<Rightarrow> 'a option \<Rightarrow> (string \<times> json) list" where
  "opt_field k f v = (case v of None \<Rightarrow> [] | Some x \<Rightarrow> [(k, f x)])"

definition populated_toJSON :: "series_doc option \<Rightarrow> json" where
  "populated_toJSON so =
     (case so of
        None \<Rightarrow> JNull
      | Some s \<Rightarrow> JObj [(''_id'', JOid (s_id s)), (''name'', JStr (s_name s))])"

definition product_toJSON :: "product_doc \<times> series_doc option \<Rightarrow> json" where
  "product_toJSON ps =
     (case ps of (p, so) \<Rightarrow>
        JObj ([(''_id'', JOid (p_id p))] @
              opt_field ''name'' JStr (name p) @
              opt_field ''capacity'' JStr (capacity p) @
              opt_field ''color'' JStr (color p) @
              opt_field ''code'' JStr (code p) @
              opt_field ''battery'' JStr (battery p) @
              opt_field ''condition'' JStr (condition p) @
              opt_field ''sellingPrice'' JNum (sellingPrice p) @
              opt_field ''purchasePrice'' JNum (purchasePrice p) @
              opt_field ''source'' JStr (source p) @
              [(''series'', populated_toJSON so)]))"

text \<open>\<^verbatim>\<open>GET /api/products\<close> (lines 282-289).\<close>

definition get_products :: "world \<Rightarrow> outcome \<times> world" where
  "get_products w =
     (case Product_find w of
        (Inr products, w') \<Rightarrow> (Responded 200 (Json (JArr (map product_toJSON products))), w')
      | (Inl err, w') \<Rightarrow> (Responded 500 (Text err), w'))"

text \<open>
  \<^verbatim>\<open>GET /api/products/full\<close> (lines 336-343): the handler, and the route with \<^verbatim>\<open>verifyToken\<close>
  in front of it.
\<close>

definition get_products_full_handler :: "request \<Rightarrow> world \<Rightarrow> outcome \<times> world" where
  "get_products_full_handler req w =
     (case Product_find w of
        (Inr products, w') \<Rightarrow> (Responded 200 (Json (JArr (map product_toJSON products))), w')
      | (Inl err, w') \<Rightarrow> (Responded 500 (Text err), w'))"

definition get_products_full :: "crypto \<Rightarrow> env \<Rightarrow> request \<Rightarrow> world \<Rightarrow> outcome \<times> world" where
  "get_products_full lib e req w =
     (case verifyToken lib e req of
        Reply r \<Rightarrow> (r, w)
      | Next req' \<Rightarrow> get_products_full_handler req' w)"

text \<open>\<^verbatim>\<open>POST /api/products\<close> (lines 388-418).\<close>

record product_body = product_fields +
  seriesId :: id_param

text \<open>\<^verbatim>\<open>new Product({...})\<close> of lines 399-410, with the ObjectId it is given.\<close>

definition new_Product :: "product_body \<Rightarrow> objectId \<Rightarrow> objectId \<Rightarrow> product_doc" where
  "new_Product b i sid =
     \<lparr>name = name b, capacity = capacity b, color = color b, code = code b,
      battery = battery b, condition = condition b,
      sellingPrice = sellingPrice b, purchasePrice = purchasePrice b,
      source = source b, p_id = i, series = sid\<rparr>"

definition post_products :: "product_body \<Rightarrow> world \<Rightarrow> outcome \<times> world" where
  "post_products b w =
     (case Series_findById (seriesId b) w of
        (Inl err, w1) \<Rightarrow> (Responded 500 (Text (''Error creating product: '' @ err)), w1)
      | (Inr None, w1) \<Rightarrow> (Responded 400 (Text ''Series not found''), w1)
      | (Inr (Some s), w1) \<Rightarrow>
          (let newProduct = new_Product b (newObjectId (db w1)) (s_id s)
           in case Product_save newProduct w1 of
                (Inr u, w2) \<Rightarrow> (Responded 201 (Text ''Product created successfully''), w2)
              | (Inl err, w2) \<Rightarrow>
                  (Responded 500 (Text (''Error creating product: '' @ err)), w2)))"

text \<open>\<^verbatim>\<open>GET /api/products/:id\<close> (lines 559-569).\<close>

definition get_product_by_id :: "id_param \<Rightarrow> world \<Rightarrow> outcome \<times> world" where
  "get_product_by_id id' w =
     (case Product_findById id' w of
        (Inl err, w') \<Rightarrow> (Responded 500 (Text err), w')
      | (Inr None, w') \<Rightarrow> (Responded 404 (Text ''Product not found''), w')
      | (Inr (Some product), w') \<Rightarrow> (Responded 200 (Json (product_toJSON product)), w'))"

text \<open>\<^verbatim>\<open>GET /api/products/series/:seriesId\<close> (lines 624-637).\<close>

definition get_products_by_series :: "id_param \<Rightarrow> world \<Rightarrow> outcome \<times> world" where
  "get_products_by_series seriesId' w =
     (case Series_findById seriesId' w of
        (Inl err, w1) \<Rightarrow> (Responded 500 (Text err), w1)
      | (Inr None, w1) \<Rightarrow> (Responded 404 (Text ''Series not found''), w1)
      | (Inr (Some s), w1) \<Rightarrow>
          (case Product_find_series seriesId' w1 of
             (Inr products, w2) \<Rightarrow>
               (Responded 200 (Json (JArr (map product_toJSON products))), w2)
           | (Inl err, w2) \<Rightarrow> (Responded 500 (Text err), w2)))"

section \<open>Reading a response\<close>

text \<open>The value a JSON object has under a key, if it has one.\<close>

definition json_field :: "string \<Rightarrow> json \<Rightarrow> json option" where
  "json_field k v = (case v of JObj kvs \<Rightarrow> map_of kvs k | _ \<Rightarrow> None)"

section \<open>A reference library and sample data\<close>

text \<open>
  A small implementation of the two library contracts, to instantiate the statements at
  concrete inputs. Numbers are written in unary and closed by a dot, a string as its
  length and the codes of its characters; a token is its payload, its two times and the
  secret, one after the other. It stands for no property of the real libraries beyond the
  contracts above.
\<close>

definition enc_nat :: "nat \<Rightarrow> string" where
  "enc_nat n = replicate n CHR ''1'' @ ''.''"

fun dec_nat :: "string \<Rightarrow> (nat \<times> string) option" where
  "dec_nat [] = None"
| "dec_nat (c # cs) =
     (if c = CHR ''.'' then Some (0, cs)
      else if c = CHR ''1'' then map_option (\<lambda>(n, r). (Suc n, r)) (dec_nat cs)
      else None)"

definition enc_str :: "string \<Rightarrow> string" where
  "enc_str s = enc_nat (length s) @ concat (map (\<lambda>c. enc_nat (of_char c)) s)"

fun dec_chars :: "nat \<Rightarrow> string \<Rightarrow> (string \<times> string) option" where
  "dec_chars 0 r = Some ([], r)"
| "dec_chars (Suc n) r =
     (case dec_nat r of
        None \<Rightarrow> None
      | Some (k, r') \<Rightarrow>
          (case dec_chars n r' of
             None \<Rightarrow> None
           | Some (cs, r'') \<Rightarrow> Some (char_of k # cs, r'')))"

definition dec_str :: "string \<Rightarrow> (string \<times> string) option" where
  "dec_str r = (case dec_nat r of None \<Rightarrow> None | Some (n, r') \<Rightarrow> dec_chars n r')"

definition ref_sign :: "objectId \<times> string \<Rightarrow> string \<Rightarrow> nat \<Rightarrow> nat \<Rightarrow> string" where
  "ref_sign payload k ttl t =
     enc_nat (fst payload) @ enc_str (snd payload) @ enc_nat t @ enc_nat (t + ttl) @ enc_str k"

definition ref_verify :: "string \<Rightarrow> string \<Rightarrow> nat \<Rightarrow> string + claims" where
  "ref_verify s k t' =
     (if \<not> list_all jws_char s then Inl ''invalid token''
      else
        (case dec_nat s of
           None \<Rightarrow> Inl ''jwt malformed''
         | Some (i, r1) \<Rightarrow>
        (case dec_str r1 of
           None \<Rightarrow> Inl ''jwt malformed''
         | Some (u, r2) \<Rightarrow>
        (case dec_nat r2 of
           None \<Rightarrow> Inl ''jwt malformed''
         | Some (t, r3) \<Rightarrow>
        (case dec_nat r3 of
           None \<Rightarrow> Inl ''jwt malformed''
         | Some (x, r4) \<Rightarrow>
             if r4 \<noteq> enc_str k then Inl ''invalid signature''
             else if x \<le> t' then Inl ''jwt expired''
             else Inr \<lparr>claim_id = i, claim_username = u, iat = t, exp = x\<rparr>)))))"

definition ref_tag :: "string \<Rightarrow> string" where
  "ref_tag p = ''$2a$'' @ p @ ''$''"

definition ref_hash :: "string \<Rightarrow> nat \<Rightarrow> string \<Rightarrow> string" where
  "ref_hash p rounds slt = ref_tag p @ slt"

definition ref_compare :: "string \<Rightarrow> string \<Rightarrow> bool" where
  "ref_compare p h = (take (length (ref_tag p)) h = ref_tag p)"

definition ref_crypto :: crypto where
  "ref_crypto =
     \<lparr>bcrypt_hash = ref_hash, bcrypt_compare = ref_compare,
      jwt_sign = ref_sign, jwt_verify = ref_verify\<rparr>"

text \<open>A store with one Series, one Product of it and one User, and requests against it.\<close>

definition demo_env :: env where
  "demo_env = \<lparr>JWT_SECRET = ''s3cr3t'', now = 1000, salt = ''NaCl''\<rparr>"

definition demo_series :: series_doc where
  "demo_series = \<lparr>s_id = 1, s_name = ''iPhone''\<rparr>"

definition demo_product :: product_doc where
  "demo_product =
     \<lparr>name = Some ''iPhone 12'', capacity = Some ''128GB'', color = Some ''black'',
      code = Some ''A2403'', battery = Some ''91%'', condition = Some ''used'',
      sellingPrice = Some 900, purchasePrice = Some 700, source = Some ''wholesaler'',
      p_id = 2, series = 1\<rparr>"

definition demo_user :: user_doc where
  "demo_user =
     \<lparr>u_id = 3, username = ''alice'', password = bcrypt_hash ref_crypto ''secret'' 10 ''NaCl''\<rparr>"

definition demo_store :: store where
  "demo_store =
     \<lparr>conn_error = None, Series_docs = [demo_series], Product_docs = [demo_product],
      User_docs = [demo_user]\<rparr>"

definition demo_world :: world where
  "demo_world = \<lparr>db = demo_store, issued = []\<rparr>"

definition empty_world :: world where
  "empty_world =
     \<lparr>db = \<lparr>conn_error = None, Series_docs = [], Product_docs = [], User_docs = []\<rparr>,
      issued = []\<rparr>"

definition demo_body :: product_body where
  "demo_body =
     \<lparr>name = Some ''Pixel 8'', capacity = None, color = None, code = None, battery = None,
      condition = None, sellingPrice = Some 500, purchasePrice = Some 400,
      source = Some ''trade-in'', seriesId = ObjectIdText 9\<rparr>"

definition demo_token :: string where
  "demo_token = jwt_sign ref_crypto (3, ''alice'') ''s3cr3t'' 3600 1000"

definition anonymous_request :: request where
  "anonymous_request = \<lparr>authorization = None, user = None\<rparr>"

definition garbled_request :: request where
  "garbled_request = \<lparr>authorization = Some ''not a token'', user = None\<rparr>"

definition token_request :: request where
  "token_request = \<lparr>authorization = Some demo_token, user = None\<rparr>"

text \<open>
  A request whose \<open>seriesId\<close> is no ObjectId, the sample store behind a connection that
  failed, and an environment in which \<open>JWT_SECRET\<close> is not set.
\<close>

definition malformed_body :: product_body where
  "malformed_body = demo_body\<lparr>seriesId := OtherText ''abc''\<rparr>"

definition offline_world :: world where
  "offline_world =
     \<lparr>db = demo_store\<lparr>conn_error := Some ''buffering timed out''\<rparr>, issued = []\<rparr>"

definition unkeyed_env :: env where
  "unkeyed_env = \<lparr>JWT_SECRET = [], now = 1000, salt = ''NaCl''\<rparr>"

text \<open>The sample store after the Series \<open>S1\<close> was created in it, and a product for that Series.\<close>

definition S1_world :: world where
  "S1_world = snd (post_series ''S1'' demo_world)"

definition S1_body :: product_body where
  "S1_body = demo_body\<lparr>seriesId := ObjectIdText 4\<rparr>"

section \<open>Properties\<close>

subsection \<open>The two declarations of the series listing\<close>

text \<open>
  Claim C8. The two handlers declared for \<^verbatim>\<open>GET /api/series\<close> are the same function of the
  store: they issue the same query and send the same response, which is the whole list of
  Series with status 200 when the query succeeds and status 500 with the error's message
  when it fails.
\<close>

theorem get_series_declarations_equal:
  "get_series_first w = get_series_second w \<and>
   get_series_first w =
     ((case conn_error (db w) of
         None \<Rightarrow> Responded 200 (Json (JArr (map series_toJSON (Series_docs (db w)))))
       | Some e \<Rightarrow> Responded 500 (Text e)),
      log_op (Find ''Series'' None) w)"
  by (simp add: get_series_first_def get_series_second_def Series_find_def Let_def
      split: option.split)

subsection \<open>Facts about the store operations\<close>

lemma Series_findById_None:
  assumes "fst (Series_findById q w) = Inr None"
  shows "Series_findById q w = (Inr None, log_op (FindById ''Series'' q) w)"
  using assms by (auto simp: Series_findById_def Let_def split: sum.splits option.splits)

lemma Series_findById_Some:
  assumes "fst (Series_findById q w) = Inr (Some s)"
  shows "Series_findById q w = (Inr (Some s), log_op (FindById ''Series'' q) w)"
    and "castObjectId q = Inr (s_id s)"
    and "conn_error (db w) = None"
    and "find (\<lambda>d. s_id d = s_id s) (Series_docs (db w)) = Some s"
  using assms
  by (auto simp: Series_findById_def castObjectId_def Let_def find_Some_iff
      split: sum.splits option.splits id_param.splits)

text \<open>
  On a reachable store the lookups say what the collection holds: a Series is found by the
  text of its id when it is the first document of that id, and nothing is found when no
  document has the id.
\<close>

lemma Series_findById_found:
  assumes "conn_error (db w) = None"
    and "find (\<lambda>d. s_id d = i) (Series_docs (db w)) = Some s"
  shows "fst (Series_findById (ObjectIdText i) w) = Inr (Some s)"
  using assms by (simp add: Series_findById_def castObjectId_def Let_def)

lemma Series_findById_missing:
  assumes "conn_error (db w) = None" and "i \<notin> set (map s_id (Series_docs (db w)))"
  shows "fst (Series_findById (ObjectIdText i) w) = Inr None"
  using assms by (auto simp: Series_findById_def castObjectId_def Let_def find_None_iff)

lemma User_findOne_missing:
  assumes "conn_error (db w) = None" and "u \<notin> set (map username (User_docs (db w)))"
  shows "fst (User_findOne u w) = Inr None"
  using assms by (auto simp: User_findOne_def Let_def find_None_iff)

text \<open>
  An id text that is the id of no stored document: the cast refuses it, or the lookup by
  the ObjectId it denotes finds nothing.
\<close>

lemma not_listed_series:
  assumes "q \<notin> set (map (\<lambda>d. ObjectIdText (s_id d)) (Series_docs st))"
    and "castObjectId q = Inr i"
  shows "find (\<lambda>d. s_id d = i) (Series_docs st) = None"
  using assms by (auto simp: castObjectId_def find_None_iff split: id_param.splits)

lemma not_listed_product:
  assumes "q \<notin> set (map (\<lambda>d. ObjectIdText (p_id d)) (Product_docs st))"
    and "castObjectId q = Inr i"
  shows "find (\<lambda>d. p_id d = i) (Product_docs st) = None"
  using assms by (auto simp: castObjectId_def find_None_iff split: id_param.splits)

lemma User_findOne_None:
  assumes "fst (User_findOne u w) = Inr None"
  shows "User_findOne u w = (Inr None, log_op (FindOne ''User'' u) w)"
    and "conn_error (db w) = None"
    and "u \<notin> set (map username (User_docs (db w)))"
  using assms
  by (auto simp: User_findOne_def Let_def find_None_iff split: option.splits)

lemma User_findOne_Some:
  assumes "fst (User_findOne u w) = Inr (Some usr)"
  shows "User_findOne u w = (Inr (Some usr), log_op (FindOne ''User'' u) w)"
    and "username usr = u"
  using assms
  by (auto simp: User_findOne_def Let_def find_Some_iff split: option.splits)

lemma find_append:
  "find P (xs @ ys) = (case find P xs of None \<Rightarrow> find P ys | Some x \<Rightarrow> Some x)"
  by (induction xs) auto

text \<open>The generated ObjectId is above every stored one, so no lookup by it finds an older document.\<close>

lemma foldr_max_ge: "x \<in> set xs \<Longrightarrow> x \<le> foldr max xs (0::nat)"
  by (induction xs) auto

lemma newObjectId_above: "x \<in> set (all_ids st) \<Longrightarrow> x < newObjectId st"
  using foldr_max_ge [of x "all_ids st"] by (simp add: newObjectId_def)

lemma newObjectId_not_series: "find (\<lambda>d. s_id d = newObjectId st) (Series_docs st) = None"
proof -
  have "\<forall>d \<in> set (Series_docs st). s_id d < newObjectId st"
    by (auto intro!: newObjectId_above simp: all_ids_def)
  then show ?thesis by (auto simp: find_None_iff)
qed

lemma newObjectId_not_product: "find (\<lambda>d. p_id d = newObjectId st) (Product_docs st) = None"
proof -
  have "\<forall>d \<in> set (Product_docs st). p_id d < newObjectId st"
    by (auto intro!: newObjectId_above simp: all_ids_def)
  then show ?thesis by (auto simp: find_None_iff)
qed

subsection \<open>Facts about the JSON of a product\<close>

lemma map_of_opt_field_other:
  "k \<noteq> k' \<Longrightarrow> map_of (opt_field k f v @ rest) k' = map_of rest k'"
  by (cases v) (simp_all add: opt_field_def)

lemma product_toJSON_series:
  "json_field ''series'' (product_toJSON (p, so)) = Some (populated_toJSON so)"
  by (simp add: json_field_def product_toJSON_def map_of_opt_field_other del: map_of_append)

lemma populated_name:
  "json_field ''name'' (populated_toJSON (Some s)) = Some (JStr (s_name s))"
  by (simp add: json_field_def populated_toJSON_def)

lemma product_series_name:
  "Option.bind (json_field ''series'' (product_toJSON (p, Some s))) (json_field ''name'') =
     Some (JStr (s_name s))"
  by (simp add: product_toJSON_series populated_name)

subsection \<open>The reference library meets the contracts\<close>

lemma dec_nat_enc_nat: "dec_nat (enc_nat n @ r) = Some (n, r)"
  by (induction n) (simp_all add: enc_nat_def)

lemma dec_chars_enc:
  "dec_chars (length s) (concat (map (\<lambda>c. enc_nat (of_char c)) s) @ r) = Some (s, r)"
  by (induction s) (simp_all add: dec_nat_enc_nat)

lemma dec_str_enc_str: "dec_str (enc_str s @ r) = Some (s, r)"
  by (simp add: dec_str_def enc_str_def dec_nat_enc_nat dec_chars_enc)

lemma jws_enc_nat: "list_all jws_char (enc_nat n)"
  by (simp add: enc_nat_def jws_char_def list_all_iff)

lemma jws_enc_chars: "list_all jws_char (concat (map (\<lambda>c. enc_nat (of_char c)) s))"
  by (induction s) (simp_all add: jws_enc_nat)

lemma jws_enc_str: "list_all jws_char (enc_str s)"
  by (simp add: enc_str_def jws_enc_nat jws_enc_chars)

lemma jws_ref_sign: "list_all jws_char (ref_sign p k ttl t)"
  using jws_enc_nat jws_enc_str by (simp add: ref_sign_def)

lemma ref_sign_nonempty: "ref_sign p k ttl t \<noteq> []"
  by (simp add: ref_sign_def enc_nat_def)

lemma ref_verify_sign:
  assumes "t' < t + ttl"
  shows "ref_verify (ref_sign (i, u) k ttl t) k t' =
           Inr \<lparr>claim_id = i, claim_username = u, iat = t, exp = t + ttl\<rparr>"
  unfolding ref_verify_def using jws_ref_sign [of "(i, u)" k ttl t] assms
  by (simp add: ref_sign_def dec_nat_enc_nat dec_str_enc_str)

lemma ref_verify_expired:
  assumes "t + ttl \<le> t'"
  shows "ref_verify (ref_sign (i, u) k ttl t) k t' = Inl ''jwt expired''"
  unfolding ref_verify_def using jws_ref_sign [of "(i, u)" k ttl t] assms
  by (simp add: ref_sign_def dec_nat_enc_nat dec_str_enc_str)

lemma ref_jwt_contract: "jwt_contract ref_crypto"
  by (simp add: jwt_contract_def ref_crypto_def ref_sign_nonempty ref_verify_sign
      ref_verify_expired)

lemma ref_jwt_keyed_contract: "jwt_keyed_contract ref_crypto"
  using ref_jwt_contract unfolding jwt_contract_def jwt_keyed_contract_def by blast

lemma ref_compact_only: "jwt_compact_only ref_crypto"
  by (simp add: jwt_compact_only_def ref_crypto_def ref_verify_def)

lemma ref_tag_nonempty: "ref_tag p \<noteq> []"
  by (simp add: ref_tag_def)

lemma ref_bcrypt_contract: "bcrypt_contract ref_crypto"
  by (simp add: bcrypt_contract_def ref_crypto_def ref_hash_def ref_compare_def
      ref_tag_nonempty)

lemma ref_compare_guess: "\<not> bcrypt_compare ref_crypto ''guess'' (password demo_user)"
  by (simp add: demo_user_def ref_crypto_def ref_compare_def ref_hash_def ref_tag_def)

lemma demo_token_verifies:
  "jwt_verify ref_crypto demo_token ''s3cr3t'' 1000 =
     Inr \<lparr>claim_id = 3, claim_username = ''alice'', iat = 1000, exp = 4600\<rparr>"
  using ref_verify_sign [of 1000 1000 3600 3 "''alice''" "''s3cr3t''"]
  by (simp add: demo_token_def ref_crypto_def)

lemma demo_token_expires:
  "isl (jwt_verify ref_crypto demo_token ''s3cr3t'' 4600)"
  using ref_verify_expired [of 1000 3600 4600 3 "''alice''" "''s3cr3t''"]
  by (simp add: demo_token_def ref_crypto_def)

lemma demo_token_nonempty: "demo_token \<noteq> []"
  by (simp add: demo_token_def ref_crypto_def ref_sign_nonempty)

lemma garbled_refused: "jwt_verify ref_crypto ''not a token'' k t = Inl ''invalid token''"
  by (simp add: ref_crypto_def ref_verify_def jws_char_def)

lemma Bearer_not_compact: "\<not> list_all jws_char (''Bearer '' @ tok)"
  by (simp add: jws_char_def)

subsection \<open>The two listings of products\<close>

text \<open>
  Claim C1. The claim is that the response of \<^verbatim>\<open>GET /api/products\<close> holds no
  \<open>purchasePrice\<close> and no \<open>source\<close> field. The handler does not project: on the sample
  store, whose one product has both fields, the public response carries
  \<open>purchasePrice = 700\<close> and \<open>source = wholesaler\<close>.
\<close>

theorem get_products_sends_cost_fields:
  "fst (get_products demo_world) =
     Responded 200
       (Json (JArr
          [JObj [(''_id'', JOid 2), (''name'', JStr ''iPhone 12''), (''capacity'', JStr ''128GB''),
                 (''color'', JStr ''black''), (''code'', JStr ''A2403''),
                 (''battery'', JStr ''91%''), (''condition'', JStr ''used''),
                 (''sellingPrice'', JNum 900), (''purchasePrice'', JNum 700),
                 (''source'', JStr ''wholesaler''),
                 (''series'', JObj [(''_id'', JOid 1), (''name'', JStr ''iPhone'')])]]))"
  by (simp add: get_products_def Product_find_def Let_def demo_world_def demo_store_def
      demo_product_def demo_series_def populate_def product_toJSON_def opt_field_def
      populated_toJSON_def log_op_def)

text \<open>
  On every store the public handler and the handler behind the token do the same: same
  query, same response.
\<close>

lemma get_products_same_as_full: "get_products w = get_products_full_handler req w"
  by (simp add: get_products_def get_products_full_handler_def)

subsection \<open>Creating a product\<close>

text \<open>
  Claim C2, as amended. Let the \<open>seriesId\<close> of the request be the id of no Series of the
  store. Then \<^verbatim>\<open>POST /api/products\<close> leaves the store as it was, and the lookup of the Series
  is the only operation it issues: no Product is saved. Its answer is 400
  \<open>Series not found\<close> when the \<open>seriesId\<close> is an ObjectId and the store is reachable, which
  is when the lookup resolves to null; it is 500 \<open>Error creating product:\<close> with the
  error's message when the \<open>seriesId\<close> is no ObjectId, and when the store is not reachable.
  On every request the store is as it was unless the answer is the 201 of a created
  product.
\<close>

theorem post_products_unknown_series:
  "(seriesId b \<notin> set (map (\<lambda>d. ObjectIdText (s_id d)) (Series_docs (db w))) \<longrightarrow>
      db (snd (post_products b w)) = db w \<and>
      issued (snd (post_products b w)) = issued w @ [FindById ''Series'' (seriesId b)]) \<and>
   (seriesId b \<notin> set (map (\<lambda>d. ObjectIdText (s_id d)) (Series_docs (db w))) \<and>
    seriesId b = ObjectIdText i \<and> conn_error (db w) = None \<longrightarrow>
      fst (post_products b w) = Responded 400 (Text ''Series not found'')) \<and>
   (fst (Series_findById (seriesId b) w) = Inr None \<longrightarrow>
      fst (post_products b w) = Responded 400 (Text ''Series not found'')) \<and>
   (seriesId b = OtherText x \<longrightarrow>
      fst (post_products b w) =
        Responded 500
          (Text (''Error creating product: '' @ ''Cast to ObjectId failed for value '' @ x))) \<and>
   (seriesId b = ObjectIdText i \<and> conn_error (db w) = Some err \<longrightarrow>
      fst (post_products b w) = Responded 500 (Text (''Error creating product: '' @ err))) \<and>
   (fst (post_products b w) \<noteq> Responded 201 (Text ''Product created successfully'') \<longrightarrow>
      db (snd (post_products b w)) = db w)"
proof -
  have frame: "db (snd (post_products b w)) = db w \<and>
      issued (snd (post_products b w)) = issued w @ [FindById ''Series'' (seriesId b)]"
    if h: "seriesId b \<notin> set (map (\<lambda>d. ObjectIdText (s_id d)) (Series_docs (db w)))"
  proof (cases "castObjectId (seriesId b)")
    case (Inl e)
    then show ?thesis
      by (simp add: post_products_def Series_findById_def log_op_def Let_def)
  next
    case (Inr j)
    from not_listed_series [OF h Inr] Inr show ?thesis
      by (simp add: post_products_def Series_findById_def log_op_def Let_def
          split: option.split)
  qed
  have null: "fst (post_products b w) = Responded 400 (Text ''Series not found'')"
    if h: "fst (Series_findById (seriesId b) w) = Inr None"
    using Series_findById_None [OF h] by (simp add: post_products_def)
  have absent: "fst (post_products b w) = Responded 400 (Text ''Series not found'')"
    if h: "seriesId b \<notin> set (map (\<lambda>d. ObjectIdText (s_id d)) (Series_docs (db w))) \<and>
           seriesId b = ObjectIdText i \<and> conn_error (db w) = None"
  proof -
    from h have "i \<notin> set (map s_id (Series_docs (db w)))" by auto
    with h have "fst (Series_findById (seriesId b) w) = Inr None"
      using Series_findById_missing [of w i] by simp
    then show ?thesis by (rule null)
  qed
  have cast: "fst (post_products b w) =
        Responded 500
          (Text (''Error creating product: '' @ ''Cast to ObjectId failed for value '' @ x))"
    if "seriesId b = OtherText x"
    using that
    by (simp add: post_products_def Series_findById_def castObjectId_def Let_def)
  have offline: "fst (post_products b w) =
        Responded 500 (Text (''Error creating product: '' @ err))"
    if "seriesId b = ObjectIdText i \<and> conn_error (db w) = Some err"
    using that
    by (simp add: post_products_def Series_findById_def castObjectId_def Let_def)
  have kept: "db (snd (post_products b w)) = db w"
    if "fst (post_products b w) \<noteq> Responded 201 (Text ''Product created successfully'')"
    using that
    by (auto simp: post_products_def Series_findById_def Product_save_def log_op_def Let_def
        split: sum.splits option.splits prod.splits)
  show ?thesis
    using frame null absent cast offline kept by blast
qed

theorem post_products_unknown_series_witness:
  "fst (post_products demo_body demo_world) = Responded 400 (Text ''Series not found'') \<and>
   db (snd (post_products demo_body demo_world)) = demo_store \<and>
   issued (snd (post_products demo_body demo_world)) = [FindById ''Series'' (ObjectIdText 9)] \<and>
   fst (post_products malformed_body demo_world) =
     Responded 500 (Text ''Error creating product: Cast to ObjectId failed for value abc'') \<and>
   db (snd (post_products malformed_body demo_world)) = demo_store \<and>
   fst (post_products demo_body offline_world) =
     Responded 500 (Text ''Error creating product: buffering timed out'') \<and>
   db (snd (post_products demo_body offline_world)) = db offline_world"
proof -
  have a: "seriesId demo_body \<notin>
             set (map (\<lambda>d. ObjectIdText (s_id d)) (Series_docs (db demo_world)))"
    and a': "seriesId demo_body = ObjectIdText 9" and a'': "conn_error (db demo_world) = None"
    by (simp_all add: demo_body_def demo_world_def demo_store_def demo_series_def)
  have h: "fst (Series_findById (seriesId demo_body) demo_world) = Inr None"
    by (simp add: Series_findById_def castObjectId_def log_op_def Let_def demo_body_def
        demo_world_def demo_store_def demo_series_def)
  have b: "seriesId malformed_body \<notin>
             set (map (\<lambda>d. ObjectIdText (s_id d)) (Series_docs (db demo_world)))"
    and b': "seriesId malformed_body = OtherText ''abc''"
    by (simp_all add: malformed_body_def demo_world_def demo_store_def)
  have c: "seriesId demo_body \<notin>
             set (map (\<lambda>d. ObjectIdText (s_id d)) (Series_docs (db offline_world)))"
    and c': "conn_error (db offline_world) = Some ''buffering timed out''"
    by (simp_all add: demo_body_def offline_world_def demo_store_def demo_series_def)
  note t1 = post_products_unknown_series [where b = demo_body and w = demo_world and i = 9]
  note t2 = post_products_unknown_series [where b = malformed_body and w = demo_world
      and x = "''abc''"]
  note t3 = post_products_unknown_series [where b = demo_body and w = offline_world
      and i = 9 and err = "''buffering timed out''"]
  have r1: "fst (post_products demo_body demo_world) = Responded 400 (Text ''Series not found'')"
    using t1 a a' a'' h by blast
  have r2: "db (snd (post_products demo_body demo_world)) = db demo_world \<and>
            issued (snd (post_products demo_body demo_world)) =
              issued demo_world @ [FindById ''Series'' (seriesId demo_body)]"
    using t1 a by blast
  have r3: "fst (post_products malformed_body demo_world) =
              Responded 500
                (Text (''Error creating product: '' @ ''Cast to ObjectId failed for value '' @ ''abc''))"
    using t2 b' by blast
  have r4: "db (snd (post_products malformed_body demo_world)) = db demo_world"
    using t2 b by blast
  have r5: "fst (post_products demo_body offline_world) =
              Responded 500 (Text (''Error creating product: '' @ ''buffering timed out''))"
    using t3 a' c' by blast
  have r6: "db (snd (post_products demo_body offline_world)) = db offline_world"
    using t3 c by blast
  show ?thesis
    using r1 r2 r3 r4 r5 r6 by (simp add: demo_world_def a')
qed

text \<open>
  Claim C2 as stated fails at a \<open>seriesId\<close> that is no ObjectId: no Series has that id,
  yet the lookup rejects and the \<^verbatim>\<open>catch\<close> answers 500, not 400.
\<close>

theorem post_products_malformed_id_counterexample:
  "seriesId malformed_body \<notin>
     set (map (\<lambda>d. ObjectIdText (s_id d)) (Series_docs (db demo_world))) \<and>
   fst (post_products malformed_body demo_world) =
     Responded 500 (Text ''Error creating product: Cast to ObjectId failed for value abc'') \<and>
   fst (post_products malformed_body demo_world) \<noteq> Responded 400 (Text ''Series not found'')"
  by (simp add: post_products_def Series_findById_def castObjectId_def log_op_def Let_def
      malformed_body_def demo_world_def demo_store_def)

subsection \<open>The token middleware\<close>

text \<open>
  Claim C3. Without an Authorization header (or with an empty one) \<^verbatim>\<open>verifyToken\<close> answers 403 and does not call
  \<^verbatim>\<open>next()\<close>: the route returns that answer with no store operation issued. With a token
  that \<^verbatim>\<open>jwt.verify\<close> refuses (a bad signature, an expired token) it answers 500, again
  without reaching the handler; a token signed by this server is so refused from its
  expiry on. Only when verification succeeds is the decoded payload put on the request
  and the handler run on it.
\<close>

theorem verifyToken_outcomes:
  "(authorization req = None \<or> authorization req = Some [] \<longrightarrow>
      verifyToken lib e req = Reply (Responded 403 (Text ''Token is required'')) \<and>
      get_products_full lib e req w = (Responded 403 (Text ''Token is required''), w)) \<and>
   (authorization req = Some tok \<and> tok \<noteq> [] \<and>
    jwt_verify lib tok (JWT_SECRET e) (now e) = Inl err \<longrightarrow>
      verifyToken lib e req = Reply (Responded 500 (Text ''Invalid Token'')) \<and>
      get_products_full lib e req w = (Responded 500 (Text ''Invalid Token''), w)) \<and>
   (jwt_contract lib \<and>
    authorization req = Some (jwt_sign lib (i, u) (JWT_SECRET e) ttl t) \<and> t + ttl \<le> now e \<longrightarrow>
      verifyToken lib e req = Reply (Responded 500 (Text ''Invalid Token''))) \<and>
   (authorization req = Some tok \<and> tok \<noteq> [] \<and>
    jwt_verify lib tok (JWT_SECRET e) (now e) = Inr decoded \<longrightarrow>
      verifyToken lib e req = Next (req\<lparr>user := Some decoded\<rparr>) \<and>
      get_products_full lib e req w =
        get_products_full_handler (req\<lparr>user := Some decoded\<rparr>) w) \<and>
   (verifyToken lib e req = Next req' \<longrightarrow>
      (\<exists>tok' d. authorization req = Some tok' \<and>
             jwt_verify lib tok' (JWT_SECRET e) (now e) = Inr d \<and>
             req' = req\<lparr>user := Some d\<rparr>))"
proof -
  have expired: "verifyToken lib e req = Reply (Responded 500 (Text ''Invalid Token''))"
    if c: "jwt_contract lib"
      and a: "authorization req = Some (jwt_sign lib (i, u) (JWT_SECRET e) ttl t)"
      and x: "t + ttl \<le> now e"
  proof -
    have "jwt_sign lib (i, u) (JWT_SECRET e) ttl t \<noteq> []"
      using c unfolding jwt_contract_def by blast
    moreover have "isl (jwt_verify lib (jwt_sign lib (i, u) (JWT_SECRET e) ttl t)
                          (JWT_SECRET e) (now e))"
      using c x unfolding jwt_contract_def by blast
    ultimately show ?thesis
      using a by (auto simp: verifyToken_def isl_def)
  qed
  have absent: "verifyToken lib e req = Reply (Responded 403 (Text ''Token is required'')) \<and>
      get_products_full lib e req w = (Responded 403 (Text ''Token is required''), w)"
    if "authorization req = None \<or> authorization req = Some []"
    using that by (auto simp: verifyToken_def get_products_full_def)
  have refused: "verifyToken lib e req = Reply (Responded 500 (Text ''Invalid Token'')) \<and>
      get_products_full lib e req w = (Responded 500 (Text ''Invalid Token''), w)"
    if "authorization req = Some tok \<and> tok \<noteq> [] \<and>
        jwt_verify lib tok (JWT_SECRET e) (now e) = Inl err"
    using that by (simp add: verifyToken_def get_products_full_def)
  have accepted: "verifyToken lib e req = Next (req\<lparr>user := Some decoded\<rparr>) \<and>
      get_products_full lib e req w =
        get_products_full_handler (req\<lparr>user := Some decoded\<rparr>) w"
    if "authorization req = Some tok \<and> tok \<noteq> [] \<and>
        jwt_verify lib tok (JWT_SECRET e) (now e) = Inr decoded"
    using that by (simp add: verifyToken_def get_products_full_def)
  have only: "\<exists>tok' d. authorization req = Some tok' \<and>
             jwt_verify lib tok' (JWT_SECRET e) (now e) = Inr d \<and>
             req' = req\<lparr>user := Some d\<rparr>"
    if "verifyToken lib e req = Next req'"
    using that
    by (auto simp: verifyToken_def split: option.splits sum.splits if_splits)
  show ?thesis
    using absent refused expired accepted only by blast
qed

theorem verifyToken_outcomes_witness:
  "verifyToken ref_crypto demo_env anonymous_request =
     Reply (Responded 403 (Text ''Token is required'')) \<and>
   get_products_full ref_crypto demo_env anonymous_request demo_world =
     (Responded 403 (Text ''Token is required''), demo_world) \<and>
   verifyToken ref_crypto demo_env garbled_request =
     Reply (Responded 500 (Text ''Invalid Token'')) \<and>
   verifyToken ref_crypto (demo_env\<lparr>now := 4600\<rparr>) token_request =
     Reply (Responded 500 (Text ''Invalid Token'')) \<and>
   verifyToken ref_crypto demo_env token_request =
     Next (token_request
             \<lparr>user := Some \<lparr>claim_id = 3, claim_username = ''alice'', iat = 1000, exp = 4600\<rparr>\<rparr>)"
proof -
  have a: "authorization anonymous_request = None"
    by (simp add: anonymous_request_def)
  have b: "authorization garbled_request = Some ''not a token'' \<and> ''not a token'' \<noteq> [] \<and>
           jwt_verify ref_crypto ''not a token'' (JWT_SECRET demo_env) (now demo_env) =
             Inl ''invalid token''"
    by (simp add: garbled_request_def garbled_refused)
  have c: "jwt_contract ref_crypto \<and>
           authorization token_request =
             Some (jwt_sign ref_crypto (3, ''alice'') (JWT_SECRET (demo_env\<lparr>now := 4600\<rparr>)) 3600 1000) \<and>
           (1000::nat) + 3600 \<le> now (demo_env\<lparr>now := 4600\<rparr>)"
    by (simp add: ref_jwt_contract token_request_def demo_token_def demo_env_def)
  have d: "authorization token_request = Some demo_token \<and> demo_token \<noteq> [] \<and>
           jwt_verify ref_crypto demo_token (JWT_SECRET demo_env) (now demo_env) =
             Inr \<lparr>claim_id = 3, claim_username = ''alice'', iat = 1000, exp = 4600\<rparr>"
    by (simp add: token_request_def demo_token_nonempty demo_token_verifies demo_env_def)
  have r1: "verifyToken ref_crypto demo_env anonymous_request =
              Reply (Responded 403 (Text ''Token is required'')) \<and>
            get_products_full ref_crypto demo_env anonymous_request demo_world =
              (Responded 403 (Text ''Token is required''), demo_world)"
    using a verifyToken_outcomes [where req = anonymous_request and lib = ref_crypto
        and e = demo_env and w = demo_world]
    by blast
  have r2: "verifyToken ref_crypto demo_env garbled_request =
              Reply (Responded 500 (Text ''Invalid Token''))"
    using b verifyToken_outcomes [where req = garbled_request and lib = ref_crypto
        and e = demo_env and tok = "''not a token''" and err = "''invalid token''"]
    by blast
  have r3: "verifyToken ref_crypto (demo_env\<lparr>now := 4600\<rparr>) token_request =
              Reply (Responded 500 (Text ''Invalid Token''))"
    using c verifyToken_outcomes [where req = token_request and lib = ref_crypto
        and e = "demo_env\<lparr>now := 4600\<rparr>" and i = 3 and u = "''alice''"
        and ttl = 3600 and t = 1000]
    by blast
  have r4: "verifyToken ref_crypto demo_env token_request =
              Next (token_request
                \<lparr>user := Some \<lparr>claim_id = 3, claim_username = ''alice'', iat = 1000,
                                exp = 4600\<rparr>\<rparr>)"
    using d verifyToken_outcomes [where req = token_request and lib = ref_crypto
        and e = demo_env and tok = demo_token
        and decoded = "\<lparr>claim_id = 3, claim_username = ''alice'', iat = 1000, exp = 4600\<rparr>"]
    by blast
  show ?thesis
    using r1 r2 r3 r4 by blast
qed

subsection \<open>Login\<close>

text \<open>
  Claim C4, as amended. Let the lookup of username \<open>u\<close> find a user whose stored password is
  the bcrypt hash of \<open>p\<close> (what registration stores), and let \<^verbatim>\<open>JWT_SECRET\<close> be set. Then
  \<^verbatim>\<open>POST /api/login\<close> with \<open>u\<close> and \<open>p\<close> answers 200 with a token: the payload of the user's id
  and the username \<open>u\<close>, signed with \<^verbatim>\<open>JWT_SECRET\<close> to live 3600 seconds. Verified with that
  secret the token decodes to that id and that username, with \<open>exp\<close> one hour after \<open>iat\<close>,
  until it expires, and is refused from then on. With \<^verbatim>\<open>JWT_SECRET\<close> not set the signing
  throws and the same request is answered 500. A username the lookup does not find, and a
  password that does not compare equal to the stored hash, are both answered with status
  400; the two answers differ in their text.
\<close>

theorem login_outcomes:
  assumes "bcrypt_contract lib" and "jwt_keyed_contract lib"
  shows "(fst (User_findOne u w) = Inr (Some usr) \<and> password usr = bcrypt_hash lib p 10 slt \<and>
          JWT_SECRET e \<noteq> [] \<longrightarrow>
            fst (post_login lib e u (Some (JStr p)) w) =
              Responded 200
                (Json (JObj [(''token'',
                   JStr (jwt_sign lib (u_id usr, u) (JWT_SECRET e) 3600 (now e)))])) \<and>
            (\<forall>t'. t' < now e + 3600 \<longrightarrow>
               jwt_verify lib (jwt_sign lib (u_id usr, u) (JWT_SECRET e) 3600 (now e))
                 (JWT_SECRET e) t' =
               Inr \<lparr>claim_id = u_id usr, claim_username = u,
                    iat = now e, exp = now e + 3600\<rparr>) \<and>
            (\<forall>t'. now e + 3600 \<le> t' \<longrightarrow>
               isl (jwt_verify lib (jwt_sign lib (u_id usr, u) (JWT_SECRET e) 3600 (now e))
                      (JWT_SECRET e) t'))) \<and>
         (fst (User_findOne u w) = Inr (Some usr) \<and> password usr = bcrypt_hash lib p 10 slt \<and>
          JWT_SECRET e = [] \<longrightarrow>
            fst (post_login lib e u (Some (JStr p)) w) =
              Responded 500 (Text ''secretOrPrivateKey must have a value'')) \<and>
         (fst (User_findOne u w) = Inr None \<longrightarrow>
            fst (post_login lib e u pw w) = Responded 400 (Text ''User not found'')) \<and>
         (fst (User_findOne u w) = Inr (Some usr) \<and> \<not> bcrypt_compare lib p' (password usr) \<longrightarrow>
            fst (post_login lib e u (Some (JStr p')) w) =
              Responded 400 (Text ''Invalid password''))"
proof -
  have signed: "fst (post_login lib e u (Some (JStr p)) w) =
      (if JWT_SECRET e = [] then Responded 500 (Text ''secretOrPrivateKey must have a value'')
       else Responded 200
              (Json (JObj [(''token'',
                 JStr (jwt_sign lib (u_id usr, u) (JWT_SECRET e) 3600 (now e)))])))"
    if h: "fst (User_findOne u w) = Inr (Some usr) \<and> password usr = bcrypt_hash lib p 10 slt"
  proof -
    have cmp: "bcrypt_compare lib p (password usr)"
      using assms(1) h unfolding bcrypt_contract_def by simp
    from h have f: "fst (User_findOne u w) = Inr (Some usr)" by simp
    show ?thesis
      using User_findOne_Some [OF f] cmp
      by (simp add: post_login_def bcrypt_compare_js_def jwt_sign_js_def)
  qed
  have decode: "jwt_verify lib (jwt_sign lib (u_id usr, u) (JWT_SECRET e) 3600 (now e))
                 (JWT_SECRET e) t' =
               Inr \<lparr>claim_id = u_id usr, claim_username = u,
                    iat = now e, exp = now e + 3600\<rparr>"
    if "JWT_SECRET e \<noteq> []" and "t' < now e + 3600" for t'
    using assms(2) that unfolding jwt_keyed_contract_def by blast
  have expire: "isl (jwt_verify lib (jwt_sign lib (u_id usr, u) (JWT_SECRET e) 3600 (now e))
                      (JWT_SECRET e) t')"
    if "JWT_SECRET e \<noteq> []" and "now e + 3600 \<le> t'" for t'
    using assms(2) that unfolding jwt_keyed_contract_def by blast
  have unknown: "fst (post_login lib e u pw w) = Responded 400 (Text ''User not found'')"
    if f: "fst (User_findOne u w) = Inr None"
    using User_findOne_None(1) [OF f] by (simp add: post_login_def)
  have wrong: "fst (post_login lib e u (Some (JStr p')) w) =
              Responded 400 (Text ''Invalid password'')"
    if h: "fst (User_findOne u w) = Inr (Some usr) \<and> \<not> bcrypt_compare lib p' (password usr)"
  proof -
    from h have f: "fst (User_findOne u w) = Inr (Some usr)" by simp
    show ?thesis
      using User_findOne_Some(1) [OF f] h by (simp add: post_login_def bcrypt_compare_js_def)
  qed
  have good: "fst (post_login lib e u (Some (JStr p)) w) =
              Responded 200
                (Json (JObj [(''token'',
                   JStr (jwt_sign lib (u_id usr, u) (JWT_SECRET e) 3600 (now e)))]))"
    if "fst (User_findOne u w) = Inr (Some usr) \<and> password usr = bcrypt_hash lib p 10 slt \<and>
        JWT_SECRET e \<noteq> []"
    using signed that by simp
  have unset: "fst (post_login lib e u (Some (JStr p)) w) =
              Responded 500 (Text ''secretOrPrivateKey must have a value'')"
    if "fst (User_findOne u w) = Inr (Some usr) \<and> password usr = bcrypt_hash lib p 10 slt \<and>
        JWT_SECRET e = []"
    using signed that by simp
  show ?thesis
    using good unset decode expire unknown wrong by blast
qed

lemma demo_finds_alice: "fst (User_findOne ''alice'' demo_world) = Inr (Some demo_user)"
  by (simp add: User_findOne_def Let_def log_op_def demo_world_def demo_store_def demo_user_def)

lemma demo_finds_no_bob: "fst (User_findOne ''bob'' demo_world) = Inr None"
  by (simp add: User_findOne_def Let_def log_op_def demo_world_def demo_store_def demo_user_def)

theorem login_outcomes_witness:
  "fst (post_login ref_crypto demo_env ''alice'' (Some (JStr ''secret'')) demo_world) =
     Responded 200 (Json (JObj [(''token'', JStr demo_token)])) \<and>
   jwt_verify ref_crypto demo_token ''s3cr3t'' 4599 =
     Inr \<lparr>claim_id = 3, claim_username = ''alice'', iat = 1000, exp = 4600\<rparr> \<and>
   isl (jwt_verify ref_crypto demo_token ''s3cr3t'' 4600) \<and>
   fst (post_login ref_crypto unkeyed_env ''alice'' (Some (JStr ''secret'')) demo_world) =
     Responded 500 (Text ''secretOrPrivateKey must have a value'') \<and>
   fst (post_login ref_crypto demo_env ''bob'' (Some (JStr ''secret'')) demo_world) =
     Responded 400 (Text ''User not found'') \<and>
   fst (post_login ref_crypto demo_env ''alice'' (Some (JStr ''guess'')) demo_world) =
     Responded 400 (Text ''Invalid password'')"
proof -
  have pw: "password demo_user = bcrypt_hash ref_crypto ''secret'' 10 ''NaCl''"
    by (simp add: demo_user_def)
  have key: "JWT_SECRET demo_env \<noteq> []" and nokey: "JWT_SECRET unkeyed_env = []"
    by (simp_all add: demo_env_def unkeyed_env_def)
  have tok: "jwt_sign ref_crypto (u_id demo_user, ''alice'') (JWT_SECRET demo_env) 3600
               (now demo_env) = demo_token"
    by (simp add: demo_token_def demo_user_def demo_env_def)
  note t1 = login_outcomes [OF ref_bcrypt_contract ref_jwt_keyed_contract,
      where u = "''alice''" and w = demo_world and usr = demo_user and p = "''secret''"
        and slt = "''NaCl''" and e = demo_env and p' = "''guess''"]
  note t2 = login_outcomes [OF ref_bcrypt_contract ref_jwt_keyed_contract,
      where u = "''bob''" and w = demo_world and e = demo_env
        and pw = "Some (JStr ''secret'')"]
  note t3 = login_outcomes [OF ref_bcrypt_contract ref_jwt_keyed_contract,
      where u = "''alice''" and w = demo_world and usr = demo_user and p = "''secret''"
        and slt = "''NaCl''" and e = unkeyed_env]
  have r1: "fst (post_login ref_crypto demo_env ''alice'' (Some (JStr ''secret'')) demo_world) =
              Responded 200 (Json (JObj [(''token'', JStr demo_token)]))"
    using t1 demo_finds_alice pw key tok by simp
  have r2: "jwt_verify ref_crypto demo_token ''s3cr3t'' 4599 =
              Inr \<lparr>claim_id = 3, claim_username = ''alice'', iat = 1000, exp = 4600\<rparr>"
    using t1 demo_finds_alice pw key tok by (simp add: demo_env_def demo_user_def)
  have r3: "isl (jwt_verify ref_crypto demo_token ''s3cr3t'' 4600)"
    using t1 demo_finds_alice pw key tok by (simp add: demo_env_def demo_user_def)
  have r4: "fst (post_login ref_crypto unkeyed_env ''alice'' (Some (JStr ''secret'')) demo_world) =
              Responded 500 (Text ''secretOrPrivateKey must have a value'')"
    using t3 demo_finds_alice pw nokey by blast
  have r5: "fst (post_login ref_crypto demo_env ''bob'' (Some (JStr ''secret'')) demo_world) =
              Responded 400 (Text ''User not found'')"
    using t2 demo_finds_no_bob by simp
  have r6: "fst (post_login ref_crypto demo_env ''alice'' (Some (JStr ''guess'')) demo_world) =
              Responded 400 (Text ''Invalid password'')"
    using t1 demo_finds_alice ref_compare_guess by simp
  show ?thesis
    using r1 r2 r3 r4 r5 r6 by simp
qed

text \<open>
  Claim C4 as stated fails where \<^verbatim>\<open>JWT_SECRET\<close> is not set: the user is registered and the
  password is the right one, yet \<^verbatim>\<open>jwt.sign\<close> throws inside the \<^verbatim>\<open>try\<close> and the answer is 500.
\<close>

theorem login_unset_secret_counterexample:
  "fst (User_findOne ''alice'' demo_world) = Inr (Some demo_user) \<and>
   password demo_user = bcrypt_hash ref_crypto ''secret'' 10 ''NaCl'' \<and>
   bcrypt_compare ref_crypto ''secret'' (password demo_user) \<and>
   fst (post_login ref_crypto unkeyed_env ''alice'' (Some (JStr ''secret'')) demo_world) =
     Responded 500 (Text ''secretOrPrivateKey must have a value'')"
proof -
  have pw: "password demo_user = bcrypt_hash ref_crypto ''secret'' 10 ''NaCl''"
    by (simp add: demo_user_def)
  have cmp: "bcrypt_compare ref_crypto ''secret'' (password demo_user)"
    using ref_bcrypt_contract unfolding bcrypt_contract_def pw by blast
  have "fst (post_login ref_crypto unkeyed_env ''alice'' (Some (JStr ''secret'')) demo_world) =
          Responded 500 (Text ''secretOrPrivateKey must have a value'')"
    using User_findOne_Some(1) [OF demo_finds_alice] cmp
    by (simp add: post_login_def bcrypt_compare_js_def jwt_sign_js_def unkeyed_env_def)
  then show ?thesis
    using demo_finds_alice pw cmp by simp
qed

subsection \<open>Registration\<close>

lemma post_register_docs:
  "User_docs (db (snd (post_register lib e u pw w))) = User_docs (db w) \<or>
   (u \<notin> set (map username (User_docs (db w))) \<and>
    (\<exists>d. username d = u \<and>
         User_docs (db (snd (post_register lib e u pw w))) = User_docs (db w) @ [d]))"
  by (auto simp: post_register_def User_save_def log_op_def Let_def
      split: sum.splits option.splits if_splits)

text \<open>
  Claim C5, as amended. Let \<open>u\<close> be a non-empty username that the lookup does not find in
  the store, and let the password be a string. The first \<^verbatim>\<open>POST /api/register\<close> answers 201
  and appends one user: \<open>u\<close> with the bcrypt hash (10 rounds, the salt drawn for this
  request) of the password. A second registration of \<open>u\<close>, whatever its password, answers
  500 with the duplicate-key message and leaves the store as the first one left it. And no
  registration, whatever its arguments, makes two stored users share a username.
\<close>

theorem register_username_unique:
  assumes "bcrypt_contract lib" and "u \<noteq> []" and "fst (User_findOne u w) = Inr None"
  shows "fst (post_register lib e u (Some (JStr p)) w) =
           Responded 201 (Text ''User registered'') \<and>
         User_docs (db (snd (post_register lib e u (Some (JStr p)) w))) =
           User_docs (db w) @
             [\<lparr>u_id = newObjectId (db w), username = u,
               password = bcrypt_hash lib p 10 (salt e)\<rparr>] \<and>
         fst (post_register lib e' u (Some (JStr p'))
                (snd (post_register lib e u (Some (JStr p)) w))) =
           Responded 500
             (Text ''E11000 duplicate key error collection: users index: username_1'') \<and>
         db (snd (post_register lib e' u (Some (JStr p'))
                    (snd (post_register lib e u (Some (JStr p)) w)))) =
           db (snd (post_register lib e u (Some (JStr p)) w)) \<and>
         (distinct (map username (User_docs (db w'))) \<longrightarrow>
            distinct (map username (User_docs (db (snd (post_register lib e'' u' pw' w'))))))"
proof -
  have ne: "\<And>q r s. bcrypt_hash lib q r s \<noteq> []"
    using assms(1) unfolding bcrypt_contract_def by blast
  note f = User_findOne_None [OF assms(3)]
  define d where "d = \<lparr>u_id = newObjectId (db w), username = u,
                 password = bcrypt_hash lib p 10 (salt e)\<rparr>"
  define w1 where
    "w1 = (log_op (Save ''User'') w)\<lparr>db := (db w)\<lparr>User_docs := User_docs (db w) @ [d]\<rparr>\<rparr>"
  have first: "post_register lib e u (Some (JStr p)) w =
                 (Responded 201 (Text ''User registered''), w1)"
    using f(2,3) assms(2) ne
    by (simp add: post_register_def bcrypt_hash_js_def User_save_def required_ok_def Let_def
        w1_def d_def)
  have docs: "User_docs (db w1) = User_docs (db w) @ [d]"
    by (simp add: w1_def log_op_def)
  have conn: "conn_error (db w1) = None"
    using f(2) by (simp add: w1_def log_op_def)
  have second: "post_register lib e' u (Some (JStr p')) w1 =
                (Responded 500
                   (Text ''E11000 duplicate key error collection: users index: username_1''),
                 log_op (Save ''User'') w1)"
    using assms(2) ne conn docs
    by (simp add: post_register_def bcrypt_hash_js_def User_save_def required_ok_def Let_def
        d_def)
  have inv: "distinct (map username (User_docs (db w'))) \<longrightarrow>
              distinct (map username (User_docs (db (snd (post_register lib e'' u' pw' w')))))"
    using post_register_docs [of lib e'' u' pw' w'] by auto
  show ?thesis
    using docs inv by (simp add: first second d_def log_op_def)
qed

theorem register_username_unique_witness:
  "fst (post_register ref_crypto demo_env ''bob'' (Some (JStr ''pw'')) demo_world) =
     Responded 201 (Text ''User registered'') \<and>
   User_docs (db (snd (post_register ref_crypto demo_env ''bob'' (Some (JStr ''pw'')) demo_world))) =
     [demo_user,
      \<lparr>u_id = 4, username = ''bob'', password = bcrypt_hash ref_crypto ''pw'' 10 ''NaCl''\<rparr>] \<and>
   fst (post_register ref_crypto demo_env ''bob'' (Some (JStr ''other''))
          (snd (post_register ref_crypto demo_env ''bob'' (Some (JStr ''pw'')) demo_world))) =
     Responded 500 (Text ''E11000 duplicate key error collection: users index: username_1'')"
proof -
  have h: "''bob'' \<noteq> []" by simp
  have n: "newObjectId (db demo_world) = 4"
    by (simp add: newObjectId_def all_ids_def demo_world_def demo_store_def demo_series_def
        demo_product_def demo_user_def)
  show ?thesis
    using register_username_unique [OF ref_bcrypt_contract h demo_finds_no_bob,
        where e = demo_env and p = "''pw''" and e' = demo_env and p' = "''other''"] n
    by (simp add: demo_world_def demo_store_def demo_env_def)
qed

text \<open>
  Claim C5 as stated fails at the empty username: the store holds no user of that name,
  yet the \<^verbatim>\<open>required\<close> validator of the schema refuses the document and the first
  registration is answered 500.
\<close>

theorem register_empty_username_counterexample:
  "fst (User_findOne [] empty_world) = Inr None \<and>
   fst (post_register ref_crypto demo_env [] (Some (JStr ''secret'')) empty_world) =
     Responded 500 (Text ''User validation failed: username: Path username is required.'') \<and>
   User_docs (db (snd (post_register ref_crypto demo_env [] (Some (JStr ''secret'')) empty_world))) = []"
  by (simp add: User_findOne_def post_register_def bcrypt_hash_js_def User_save_def
      required_ok_def log_op_def Let_def empty_world_def)

text \<open>
  Claim C9. The hash is awaited before the handler's \<^verbatim>\<open>try\<close>. When the password of the
  request is absent or is not a string, \<^verbatim>\<open>bcrypt.hash\<close> rejects, the handler's promise rejects
  with that error, and the handler sends nothing: neither the 201 nor the 500 of its
  \<^verbatim>\<open>catch\<close>. No store operation is issued.
\<close>

theorem register_without_password_rejects:
  assumes "\<forall>s. pw \<noteq> Some (JStr s)"
  shows "post_register lib e u pw w =
           (Rejected (''Illegal arguments: '' @ typeof pw @ '', number''), w) \<and>
         (\<forall>status b. fst (post_register lib e u pw w) \<noteq> Responded status b)"
  using assms
  by (auto simp: post_register_def bcrypt_hash_js_def split: option.splits json.splits)

theorem register_without_password_rejects_witness:
  "post_register ref_crypto demo_env ''bob'' None demo_world =
     (Rejected ''Illegal arguments: undefined, number'', demo_world) \<and>
   post_register ref_crypto demo_env ''bob'' (Some (JNum 1234)) demo_world =
     (Rejected ''Illegal arguments: number, number'', demo_world)"
proof -
  have a: "\<forall>s. (None :: json option) \<noteq> Some (JStr s)" by simp
  have b: "\<forall>s. Some (JNum 1234) \<noteq> Some (JStr s)" by simp
  show ?thesis
    using register_without_password_rejects [OF a, of ref_crypto demo_env "''bob''" demo_world]
      register_without_password_rejects [OF b, of ref_crypto demo_env "''bob''" demo_world]
    by simp
qed

subsection \<open>The Bearer prefix\<close>

text \<open>
  Claim C10. \<^verbatim>\<open>verifyToken\<close> hands the whole header value to \<^verbatim>\<open>jwt.verify\<close>. A header that is
  \<open>Bearer\<close>, a space and a token is no token (a token has no space in it), so the answer is
  500, also for a token this server signed and that has not expired. That same token sent
  bare is accepted. And whenever the middleware calls \<^verbatim>\<open>next()\<close>, the header value itself
  verified as a token.
\<close>

theorem verifyToken_keeps_Bearer_prefix:
  assumes "jwt_compact_only lib" and "jwt_contract lib"
  shows "verifyToken lib e (req\<lparr>authorization := Some (''Bearer '' @ tok)\<rparr>) =
           Reply (Responded 500 (Text ''Invalid Token'')) \<and>
         (now e < t + ttl \<longrightarrow>
            verifyToken lib e
              (req\<lparr>authorization :=
                     Some (''Bearer '' @ jwt_sign lib (i, u) (JWT_SECRET e) ttl t)\<rparr>) =
              Reply (Responded 500 (Text ''Invalid Token'')) \<and>
            verifyToken lib e
              (req\<lparr>authorization := Some (jwt_sign lib (i, u) (JWT_SECRET e) ttl t)\<rparr>) =
              Next (req\<lparr>authorization := Some (jwt_sign lib (i, u) (JWT_SECRET e) ttl t),
                       user := Some \<lparr>claim_id = i, claim_username = u, iat = t,
                                     exp = t + ttl\<rparr>\<rparr>)) \<and>
         (verifyToken lib e req = Next req' \<longrightarrow>
            (\<exists>h d. authorization req = Some h \<and>
                   jwt_verify lib h (JWT_SECRET e) (now e) = Inr d \<and>
                   req' = req\<lparr>user := Some d\<rparr>))"
proof -
  have a: "verifyToken lib e (req\<lparr>authorization := Some (''Bearer '' @ x)\<rparr>) =
           Reply (Responded 500 (Text ''Invalid Token''))" for x
  proof -
    have "isl (jwt_verify lib (''Bearer '' @ x) (JWT_SECRET e) (now e))"
      using assms(1) Bearer_not_compact [of x] unfolding jwt_compact_only_def by blast
    then show ?thesis
      by (auto simp: verifyToken_def isl_def)
  qed
  have b: "jwt_sign lib (i, u) (JWT_SECRET e) ttl t \<noteq> []"
    using assms(2) unfolding jwt_contract_def by blast
  have c: "jwt_verify lib (jwt_sign lib (i, u) (JWT_SECRET e) ttl t) (JWT_SECRET e) (now e) =
       Inr \<lparr>claim_id = i, claim_username = u, iat = t, exp = t + ttl\<rparr>"
    if "now e < t + ttl"
    using assms(2) that unfolding jwt_contract_def by blast
  have bare: "verifyToken lib e
              (req\<lparr>authorization := Some (jwt_sign lib (i, u) (JWT_SECRET e) ttl t)\<rparr>) =
              Next (req\<lparr>authorization := Some (jwt_sign lib (i, u) (JWT_SECRET e) ttl t),
                       user := Some \<lparr>claim_id = i, claim_username = u, iat = t,
                                     exp = t + ttl\<rparr>\<rparr>)"
    if "now e < t + ttl"
    using b c [OF that] by (simp add: verifyToken_def)
  have only: "\<exists>h d. authorization req = Some h \<and>
                   jwt_verify lib h (JWT_SECRET e) (now e) = Inr d \<and>
                   req' = req\<lparr>user := Some d\<rparr>"
    if "verifyToken lib e req = Next req'"
    using that by (auto simp: verifyToken_def split: option.splits sum.splits if_splits)
  show ?thesis
    using a bare only by blast
qed

theorem verifyToken_keeps_Bearer_prefix_witness:
  "verifyToken ref_crypto demo_env
     (token_request\<lparr>authorization := Some (''Bearer '' @ demo_token)\<rparr>) =
     Reply (Responded 500 (Text ''Invalid Token'')) \<and>
   verifyToken ref_crypto demo_env token_request =
     Next (token_request
             \<lparr>user := Some \<lparr>claim_id = 3, claim_username = ''alice'', iat = 1000, exp = 4600\<rparr>\<rparr>)"
proof -
  have lt: "now demo_env < (1000::nat) + 3600"
    by (simp add: demo_env_def)
  have tok: "jwt_sign ref_crypto (3, ''alice'') (JWT_SECRET demo_env) 3600 1000 = demo_token"
    by (simp add: demo_token_def demo_env_def)
  have req: "token_request\<lparr>authorization := Some demo_token\<rparr> = token_request"
    by (simp add: token_request_def)
  show ?thesis
    using lt verifyToken_keeps_Bearer_prefix [OF ref_compact_only ref_jwt_contract,
        where e = demo_env and req = token_request and t = 1000 and ttl = 3600 and i = 3
          and u = "''alice''"]
    by (simp add: tok req)
qed

subsection \<open>Products of a series\<close>

text \<open>
  Claim C6, as amended. Let the lookup of the route's \<open>seriesId\<close> find the Series \<open>s\<close>, and let
  \<open>N\<close> products of the store reference \<open>s\<close>. Then \<^verbatim>\<open>GET /api/products/series/:seriesId\<close> answers
  200 with the records of exactly those products, in the store's order: there are \<open>N\<close> of
  them, and in each the reference is expanded, \<open>series.name\<close> being the name of \<open>s\<close>. When
  the \<open>seriesId\<close> is the id of no Series of the store, the lookup of the Series is the only
  operation issued: no product query is performed. The answer is then 404 when the
  \<open>seriesId\<close> is an ObjectId and the store is reachable, which is when the lookup resolves
  to null; it is 500 with the error's message when the \<open>seriesId\<close> is no ObjectId, and when
  the store is not reachable.
\<close>

theorem get_products_by_series_outcomes:
  "(fst (Series_findById q w) = Inr (Some s) \<and>
    length (filter (\<lambda>p. series p = s_id s) (Product_docs (db w))) = N \<longrightarrow>
      fst (get_products_by_series q w) =
        Responded 200
          (Json (JArr (map (\<lambda>p. product_toJSON (p, Some s))
                         (filter (\<lambda>p. series p = s_id s) (Product_docs (db w)))))) \<and>
      length (map (\<lambda>p. product_toJSON (p, Some s))
                (filter (\<lambda>p. series p = s_id s) (Product_docs (db w)))) = N \<and>
      (\<forall>r \<in> set (map (\<lambda>p. product_toJSON (p, Some s))
                     (filter (\<lambda>p. series p = s_id s) (Product_docs (db w)))).
         Option.bind (json_field ''series'' r) (json_field ''name'') = Some (JStr (s_name s)))) \<and>
   (q \<notin> set (map (\<lambda>d. ObjectIdText (s_id d)) (Series_docs (db w))) \<longrightarrow>
      snd (get_products_by_series q w) = w\<lparr>issued := issued w @ [FindById ''Series'' q]\<rparr>) \<and>
   (q \<notin> set (map (\<lambda>d. ObjectIdText (s_id d)) (Series_docs (db w))) \<and>
    q = ObjectIdText i \<and> conn_error (db w) = None \<longrightarrow>
      fst (get_products_by_series q w) = Responded 404 (Text ''Series not found'')) \<and>
   (fst (Series_findById q w) = Inr None \<longrightarrow>
      get_products_by_series q w =
        (Responded 404 (Text ''Series not found''),
         w\<lparr>issued := issued w @ [FindById ''Series'' q]\<rparr>)) \<and>
   (q = OtherText x \<longrightarrow>
      fst (get_products_by_series q w) =
        Responded 500 (Text (''Cast to ObjectId failed for value '' @ x))) \<and>
   (q = ObjectIdText i \<and> conn_error (db w) = Some err \<longrightarrow>
      fst (get_products_by_series q w) = Responded 500 (Text err))"
proof -
  have found: "fst (get_products_by_series q w) =
        Responded 200
          (Json (JArr (map (\<lambda>p. product_toJSON (p, Some s))
                         (filter (\<lambda>p. series p = s_id s) (Product_docs (db w))))))"
    if h: "fst (Series_findById q w) = Inr (Some s)"
  proof -
    note f = Series_findById_Some [OF h]
    have pop: "map (populate (db w)) (filter (\<lambda>p. series p = s_id s) (Product_docs (db w))) =
               map (\<lambda>p. (p, Some s)) (filter (\<lambda>p. series p = s_id s) (Product_docs (db w)))"
      using f(4) by (simp add: populate_def)
    show ?thesis
      by (simp add: get_products_by_series_def f(1) Product_find_series_def f(2) f(3) pop
          log_op_def Let_def comp_def)
  qed
  have names: "\<forall>r \<in> set (map (\<lambda>p. product_toJSON (p, Some s))
                     (filter (\<lambda>p. series p = s_id s) (Product_docs (db w)))).
         Option.bind (json_field ''series'' r) (json_field ''name'') = Some (JStr (s_name s))"
    by (auto simp: product_series_name)
  have null: "get_products_by_series q w =
        (Responded 404 (Text ''Series not found''),
         w\<lparr>issued := issued w @ [FindById ''Series'' q]\<rparr>)"
    if h: "fst (Series_findById q w) = Inr None"
    using Series_findById_None [OF h] by (simp add: get_products_by_series_def log_op_def)
  have only: "snd (get_products_by_series q w) =
                w\<lparr>issued := issued w @ [FindById ''Series'' q]\<rparr>"
    if h: "q \<notin> set (map (\<lambda>d. ObjectIdText (s_id d)) (Series_docs (db w)))"
  proof (cases "castObjectId q")
    case (Inl e)
    then show ?thesis
      by (simp add: get_products_by_series_def Series_findById_def log_op_def Let_def)
  next
    case (Inr j)
    from not_listed_series [OF h Inr] Inr show ?thesis
      by (simp add: get_products_by_series_def Series_findById_def log_op_def Let_def
          split: option.split)
  qed
  have absent: "fst (get_products_by_series q w) = Responded 404 (Text ''Series not found'')"
    if h: "q \<notin> set (map (\<lambda>d. ObjectIdText (s_id d)) (Series_docs (db w))) \<and>
           q = ObjectIdText i \<and> conn_error (db w) = None"
  proof -
    from h have "i \<notin> set (map s_id (Series_docs (db w)))" by auto
    with h have "fst (Series_findById q w) = Inr None"
      using Series_findById_missing [of w i] by simp
    from null [OF this] show ?thesis by simp
  qed
  have cast: "fst (get_products_by_series q w) =
        Responded 500 (Text (''Cast to ObjectId failed for value '' @ x))"
    if "q = OtherText x"
    using that
    by (simp add: get_products_by_series_def Series_findById_def castObjectId_def Let_def)
  have offline: "fst (get_products_by_series q w) = Responded 500 (Text err)"
    if "q = ObjectIdText i \<and> conn_error (db w) = Some err"
    using that
    by (simp add: get_products_by_series_def Series_findById_def castObjectId_def Let_def)
  have first: "fst (Series_findById q w) = Inr (Some s) \<and>
    length (filter (\<lambda>p. series p = s_id s) (Product_docs (db w))) = N \<longrightarrow>
      fst (get_products_by_series q w) =
        Responded 200
          (Json (JArr (map (\<lambda>p. product_toJSON (p, Some s))
                         (filter (\<lambda>p. series p = s_id s) (Product_docs (db w)))))) \<and>
      length (map (\<lambda>p. product_toJSON (p, Some s))
                (filter (\<lambda>p. series p = s_id s) (Product_docs (db w)))) = N \<and>
      (\<forall>r \<in> set (map (\<lambda>p. product_toJSON (p, Some s))
                     (filter (\<lambda>p. series p = s_id s) (Product_docs (db w)))).
         Option.bind (json_field ''series'' r) (json_field ''name'') = Some (JStr (s_name s)))"
    using found names by simp
  show ?thesis
    using first only absent null cast offline by blast
qed

lemma demo_finds_series:
  "fst (Series_findById (ObjectIdText 1) demo_world) = Inr (Some demo_series)"
  by (simp add: Series_findById_def castObjectId_def log_op_def Let_def demo_world_def
      demo_store_def demo_series_def)

theorem get_products_by_series_outcomes_witness:
  "fst (get_products_by_series (ObjectIdText 1) demo_world) =
     Responded 200 (Json (JArr [product_toJSON (demo_product, Some demo_series)])) \<and>
   Option.bind (json_field ''series'' (product_toJSON (demo_product, Some demo_series)))
     (json_field ''name'') = Some (JStr ''iPhone'') \<and>
   get_products_by_series (ObjectIdText 9) demo_world =
     (Responded 404 (Text ''Series not found''),
      demo_world\<lparr>issued := [FindById ''Series'' (ObjectIdText 9)]\<rparr>) \<and>
   get_products_by_series (OtherText ''abc'') demo_world =
     (Responded 500 (Text ''Cast to ObjectId failed for value abc''),
      demo_world\<lparr>issued := [FindById ''Series'' (OtherText ''abc'')]\<rparr>) \<and>
   fst (get_products_by_series (ObjectIdText 1) offline_world) =
     Responded 500 (Text ''buffering timed out'')"
proof -
  have n: "filter (\<lambda>p. series p = s_id demo_series) (Product_docs (db demo_world)) =
             [demo_product]"
    by (simp add: demo_world_def demo_store_def demo_product_def demo_series_def)
  have u: "fst (Series_findById (ObjectIdText 9) demo_world) = Inr None"
    by (simp add: Series_findById_def castObjectId_def log_op_def Let_def demo_world_def
        demo_store_def demo_series_def)
  have a: "ObjectIdText 9 \<notin> set (map (\<lambda>d. ObjectIdText (s_id d)) (Series_docs (db demo_world)))"
    and b: "OtherText ''abc'' \<notin>
              set (map (\<lambda>d. ObjectIdText (s_id d)) (Series_docs (db demo_world)))"
    and c: "conn_error (db demo_world) = None"
    and d: "conn_error (db offline_world) = Some ''buffering timed out''"
    by (simp_all add: demo_world_def offline_world_def demo_store_def demo_series_def)
  have i: "issued demo_world = []" and nm: "s_name demo_series = ''iPhone''"
    by (simp_all add: demo_world_def demo_series_def)
  note t1 = get_products_by_series_outcomes [where q = "ObjectIdText 1" and w = demo_world
        and s = demo_series and N = 1]
  note t2 = get_products_by_series_outcomes [where q = "ObjectIdText 9" and w = demo_world
        and i = 9]
  note t3 = get_products_by_series_outcomes [where q = "OtherText ''abc''" and w = demo_world
        and x = "''abc''"]
  note t4 = get_products_by_series_outcomes [where q = "ObjectIdText 1" and w = offline_world
        and i = 1 and err = "''buffering timed out''"]
  have r1: "fst (get_products_by_series (ObjectIdText 1) demo_world) =
     Responded 200 (Json (JArr [product_toJSON (demo_product, Some demo_series)])) \<and>
   Option.bind (json_field ''series'' (product_toJSON (demo_product, Some demo_series)))
     (json_field ''name'') = Some (JStr ''iPhone'')"
    using t1 demo_finds_series by (simp add: n nm)
  have r2: "get_products_by_series (ObjectIdText 9) demo_world =
     (Responded 404 (Text ''Series not found''),
      demo_world\<lparr>issued := [FindById ''Series'' (ObjectIdText 9)]\<rparr>)"
  proof -
    have "fst (get_products_by_series (ObjectIdText 9) demo_world) =
            Responded 404 (Text ''Series not found'')"
      using t2 a c by blast
    moreover have "snd (get_products_by_series (ObjectIdText 9) demo_world) =
            demo_world\<lparr>issued := issued demo_world @ [FindById ''Series'' (ObjectIdText 9)]\<rparr>"
      using t2 a by blast
    ultimately show ?thesis
      by (simp add: i prod_eq_iff)
  qed
  have r3: "get_products_by_series (OtherText ''abc'') demo_world =
     (Responded 500 (Text ''Cast to ObjectId failed for value abc''),
      demo_world\<lparr>issued := [FindById ''Series'' (OtherText ''abc'')]\<rparr>)"
  proof -
    have "fst (get_products_by_series (OtherText ''abc'') demo_world) =
            Responded 500 (Text (''Cast to ObjectId failed for value '' @ ''abc''))"
      using t3 by blast
    moreover have "snd (get_products_by_series (OtherText ''abc'') demo_world) =
            demo_world\<lparr>issued := issued demo_world @ [FindById ''Series'' (OtherText ''abc'')]\<rparr>"
      using t3 b by blast
    ultimately show ?thesis
      by (simp add: i prod_eq_iff)
  qed
  have r4: "fst (get_products_by_series (ObjectIdText 1) offline_world) =
              Responded 500 (Text ''buffering timed out'')"
    using t4 d by blast
  show ?thesis
    using r1 r2 r3 r4 by simp
qed

text \<open>
  Claim C6 as stated fails at a \<open>seriesId\<close> that is no ObjectId: no Series has that id,
  yet the lookup rejects and the \<^verbatim>\<open>catch\<close> answers 500, not 404.
\<close>

theorem get_products_by_series_malformed_id_counterexample:
  "OtherText ''abc'' \<notin> set (map (\<lambda>d. ObjectIdText (s_id d)) (Series_docs (db demo_world))) \<and>
   fst (get_products_by_series (OtherText ''abc'') demo_world) =
     Responded 500 (Text ''Cast to ObjectId failed for value abc'') \<and>
   fst (get_products_by_series (OtherText ''abc'') demo_world) \<noteq>
     Responded 404 (Text ''Series not found'')"
  by (simp add: get_products_by_series_def Series_findById_def castObjectId_def log_op_def
      Let_def demo_world_def demo_store_def)

subsection \<open>From a new series to a product read back\<close>

lemma post_series_created:
  assumes "post_series n w = (Responded 201 b1, w')"
  shows "conn_error (db w) = None"
    and "n \<notin> set (map s_name (Series_docs (db w)))"
    and "db w' =
           (db w)\<lparr>Series_docs := Series_docs (db w) @ [\<lparr>s_id = newObjectId (db w), s_name = n\<rparr>]\<rparr>"
  using assms
  by (auto simp: post_series_def Series_save_def log_op_def Let_def
      split: if_splits option.splits)

text \<open>
  Claim C7, as amended. Creating the Series \<open>S1\<close> succeeds (answer 201) exactly on a store
  that is reachable and holds no Series of that name; on a store that is not reachable, and
  on one that holds such a Series, it is answered 500. Start from any store on which it
  succeeds, and let \<open>s\<close> be the Series named \<open>S1\<close> of the store that results. Creating a
  product whose \<open>seriesId\<close> is the id of \<open>s\<close> then succeeds with 201 and appends that product
  under a new id; reading that id with \<^verbatim>\<open>GET /api/products/:id\<close> answers 200 with the product
  as it was sent, its reference expanded, \<open>series.name\<close> being \<open>S1\<close>. Reading an id that no
  product has answers 404 when the id is an ObjectId and the store is reachable, which is
  when the lookup resolves to null; reading an id that is no ObjectId, and reading from a
  store that is not reachable, answers 500 with the error's message.
\<close>

theorem series_product_roundtrip:
  "(conn_error (db w) = None \<and> ''S1'' \<notin> set (map s_name (Series_docs (db w))) \<longrightarrow>
      fst (post_series ''S1'' w) = Responded 201 (Text ''Series created successfully'')) \<and>
   (fst (post_series ''S1'' w) = Responded 201 (Text ''Series created successfully'') \<longrightarrow>
      conn_error (db w) = None \<and> ''S1'' \<notin> set (map s_name (Series_docs (db w)))) \<and>
   (conn_error (db w) = Some err \<longrightarrow>
      fst (post_series ''S1'' w) = Responded 500 (Text err) \<and>
      db (snd (post_series ''S1'' w)) = db w) \<and>
   (conn_error (db w) = None \<and> ''S1'' \<in> set (map s_name (Series_docs (db w))) \<longrightarrow>
      fst (post_series ''S1'' w) =
        Responded 500
          (Text ''E11000 duplicate key error collection: series index: name_1'') \<and>
      db (snd (post_series ''S1'' w)) = db w) \<and>
   (post_series ''S1'' w = (Responded 201 (Text ''Series created successfully''), w') \<and>
    s \<in> set (Series_docs (db w')) \<and> s_name s = ''S1'' \<and>
    seriesId b = ObjectIdText (s_id s) \<longrightarrow>
      fst (post_products b w') = Responded 201 (Text ''Product created successfully'') \<and>
      Product_docs (db (snd (post_products b w'))) =
        Product_docs (db w') @ [new_Product b (newObjectId (db w')) (s_id s)] \<and>
      fst (get_product_by_id (ObjectIdText (newObjectId (db w'))) (snd (post_products b w'))) =
        Responded 200
          (Json (product_toJSON (new_Product b (newObjectId (db w')) (s_id s), Some s))) \<and>
      Option.bind
        (json_field ''series''
           (product_toJSON (new_Product b (newObjectId (db w')) (s_id s), Some s)))
        (json_field ''name'') = Some (JStr ''S1'')) \<and>
   (q \<notin> set (map (\<lambda>d. ObjectIdText (p_id d)) (Product_docs (db w))) \<and>
    q = ObjectIdText i \<and> conn_error (db w) = None \<longrightarrow>
      fst (get_product_by_id q w) = Responded 404 (Text ''Product not found'')) \<and>
   (fst (Product_findById q w) = Inr None \<longrightarrow>
      fst (get_product_by_id q w) = Responded 404 (Text ''Product not found'')) \<and>
   (q = OtherText x \<longrightarrow>
      fst (get_product_by_id q w) =
        Responded 500 (Text (''Cast to ObjectId failed for value '' @ x))) \<and>
   (q = ObjectIdText i \<and> conn_error (db w) = Some err \<longrightarrow>
      fst (get_product_by_id q w) = Responded 500 (Text err))"
proof -
  have create_ok: "fst (post_series ''S1'' w) = Responded 201 (Text ''Series created successfully'')"
    if "conn_error (db w) = None \<and> ''S1'' \<notin> set (map s_name (Series_docs (db w)))"
    using that by (simp add: post_series_def Series_save_def required_ok_def Let_def)
  have create_only: "conn_error (db w) = None \<and> ''S1'' \<notin> set (map s_name (Series_docs (db w)))"
    if "fst (post_series ''S1'' w) = Responded 201 (Text ''Series created successfully'')"
    using that
    by (auto simp: post_series_def Series_save_def required_ok_def Let_def
        split: if_splits option.splits)
  have create_offline: "fst (post_series ''S1'' w) = Responded 500 (Text err) \<and>
      db (snd (post_series ''S1'' w)) = db w"
    if "conn_error (db w) = Some err"
    using that by (simp add: post_series_def Series_save_def required_ok_def Let_def log_op_def)
  have create_dup: "fst (post_series ''S1'' w) =
        Responded 500
          (Text ''E11000 duplicate key error collection: series index: name_1'') \<and>
      db (snd (post_series ''S1'' w)) = db w"
    if "conn_error (db w) = None \<and> ''S1'' \<in> set (map s_name (Series_docs (db w)))"
    using that by (simp add: post_series_def Series_save_def required_ok_def Let_def log_op_def)
  have trip: "fst (post_products b w') = Responded 201 (Text ''Product created successfully'') \<and>
      Product_docs (db (snd (post_products b w'))) =
        Product_docs (db w') @ [new_Product b (newObjectId (db w')) (s_id s)] \<and>
      fst (get_product_by_id (ObjectIdText (newObjectId (db w'))) (snd (post_products b w'))) =
        Responded 200
          (Json (product_toJSON (new_Product b (newObjectId (db w')) (s_id s), Some s))) \<and>
      Option.bind
        (json_field ''series''
           (product_toJSON (new_Product b (newObjectId (db w')) (s_id s), Some s)))
        (json_field ''name'') = Some (JStr ''S1'')"
    if a: "post_series ''S1'' w = (Responded 201 (Text ''Series created successfully''), w') \<and>
           s \<in> set (Series_docs (db w')) \<and> s_name s = ''S1'' \<and>
           seriesId b = ObjectIdText (s_id s)"
  proof -
    from a have a1: "post_series ''S1'' w =
                       (Responded 201 (Text ''Series created successfully''), w')"
      and a2: "s \<in> set (Series_docs (db w'))" and a3: "s_name s = ''S1''"
      and a4: "seriesId b = ObjectIdText (s_id s)"
      by simp_all
    note c = post_series_created [OF a1]
    define new where "new = \<lparr>s_id = newObjectId (db w), s_name = ''S1''\<rparr>"
    have docs1: "Series_docs (db w') = Series_docs (db w) @ [new]"
      and conn1: "conn_error (db w') = None"
      using c by (simp_all add: new_def)
    have "s = new"
      using a2 a3 c(2) docs1 by (auto simp: image_iff)
    then have sid: "s_id s = newObjectId (db w)" by (simp add: new_def)
    have found: "find (\<lambda>d. s_id d = s_id s) (Series_docs (db w')) = Some s"
      using newObjectId_not_series [of "db w"] \<open>s = new\<close>
      by (simp add: docs1 find_append sid new_def)
    define j where "j = newObjectId (db w')"
    define w2 where
      "w2 = (log_op (Save ''Product'') (log_op (FindById ''Series'' (seriesId b)) w'))
              \<lparr>db := (db w')\<lparr>Product_docs := Product_docs (db w') @ [new_Product b j (s_id s)]\<rparr>\<rparr>"
    have create: "post_products b w' =
                    (Responded 201 (Text ''Product created successfully''), w2)"
      using found conn1
      by (simp add: post_products_def Series_findById_def castObjectId_def a4
          Product_save_def log_op_def Let_def w2_def j_def)
    have docs2: "Product_docs (db w2) = Product_docs (db w') @ [new_Product b j (s_id s)]"
      and series2: "Series_docs (db w2) = Series_docs (db w')"
      and conn2: "conn_error (db w2) = None"
      using conn1 by (simp_all add: w2_def log_op_def)
    have fp: "find (\<lambda>d. p_id d = j) (Product_docs (db w2)) = Some (new_Product b j (s_id s))"
      using newObjectId_not_product [of "db w'"]
      by (simp add: docs2 find_append j_def new_Product_def)
    have read: "fst (get_product_by_id (ObjectIdText j) w2) =
               Responded 200 (Json (product_toJSON (new_Product b j (s_id s), Some s)))"
      using fp conn2 found
      by (simp add: get_product_by_id_def Product_findById_def castObjectId_def log_op_def
          Let_def populate_def series2 new_Product_def)
    show ?thesis
      using docs2 read a3 by (simp add: create j_def product_series_name)
  qed
  have null: "fst (get_product_by_id q w) = Responded 404 (Text ''Product not found'')"
    if "fst (Product_findById q w) = Inr None"
    using that
    by (auto simp: get_product_by_id_def Product_findById_def Let_def
        split: sum.splits option.splits)
  have absent: "fst (get_product_by_id q w) = Responded 404 (Text ''Product not found'')"
    if h: "q \<notin> set (map (\<lambda>d. ObjectIdText (p_id d)) (Product_docs (db w))) \<and>
           q = ObjectIdText i \<and> conn_error (db w) = None"
  proof -
    from h have c: "castObjectId q = Inr i"
      by (simp add: castObjectId_def)
    from h have n: "q \<notin> set (map (\<lambda>d. ObjectIdText (p_id d)) (Product_docs (db w)))"
      by blast
    show ?thesis
      using not_listed_product [OF n c] c h
      by (simp add: get_product_by_id_def Product_findById_def Let_def)
  qed
  have cast: "fst (get_product_by_id q w) =
        Responded 500 (Text (''Cast to ObjectId failed for value '' @ x))"
    if "q = OtherText x"
    using that by (simp add: get_product_by_id_def Product_findById_def castObjectId_def Let_def)
  have offline: "fst (get_product_by_id q w) = Responded 500 (Text err)"
    if "q = ObjectIdText i \<and> conn_error (db w) = Some err"
    using that by (simp add: get_product_by_id_def Product_findById_def castObjectId_def Let_def)
  show ?thesis
    using create_ok create_only create_offline create_dup trip null absent cast offline
    by blast
qed

theorem series_product_roundtrip_witness:
  "post_series ''S1'' demo_world = (Responded 201 (Text ''Series created successfully''), S1_world) \<and>
   fst (post_products S1_body S1_world) = Responded 201 (Text ''Product created successfully'') \<and>
   fst (get_product_by_id (ObjectIdText 5) (snd (post_products S1_body S1_world))) =
     Responded 200
       (Json (JObj [(''_id'', JOid 5), (''name'', JStr ''Pixel 8''), (''sellingPrice'', JNum 500),
                    (''purchasePrice'', JNum 400), (''source'', JStr ''trade-in''),
                    (''series'', JObj [(''_id'', JOid 4), (''name'', JStr ''S1'')])])) \<and>
   fst (post_series ''S1'' offline_world) = Responded 500 (Text ''buffering timed out'') \<and>
   fst (post_series ''S1'' S1_world) =
     Responded 500 (Text ''E11000 duplicate key error collection: series index: name_1'') \<and>
   fst (get_product_by_id (ObjectIdText 9) demo_world) = Responded 404 (Text ''Product not found'') \<and>
   fst (get_product_by_id (OtherText ''abc'') demo_world) =
     Responded 500 (Text ''Cast to ObjectId failed for value abc'') \<and>
   fst (get_product_by_id (ObjectIdText 2) offline_world) =
     Responded 500 (Text ''buffering timed out'')"
proof -
  have sw: "S1_world =
              \<lparr>db = demo_store\<lparr>Series_docs := [demo_series, \<lparr>s_id = 4, s_name = ''S1''\<rparr>]\<rparr>,
               issued = [Save ''Series'']\<rparr>"
    by (simp add: S1_world_def post_series_def Series_save_def required_ok_def log_op_def Let_def
        newObjectId_def all_ids_def demo_world_def demo_store_def demo_series_def
        demo_product_def demo_user_def)
  have pre: "conn_error (db demo_world) = None \<and>
             ''S1'' \<notin> set (map s_name (Series_docs (db demo_world)))"
    by (simp add: demo_world_def demo_store_def demo_series_def)
  have b: "\<lparr>s_id = 4, s_name = ''S1''\<rparr> \<in> set (Series_docs (db S1_world))"
    by (simp add: sw)
  have c: "seriesId S1_body = ObjectIdText (s_id \<lparr>s_id = 4, s_name = ''S1''\<rparr>)"
    by (simp add: S1_body_def)
  have n: "newObjectId (db S1_world) = 5"
    by (simp add: sw newObjectId_def all_ids_def demo_store_def demo_series_def
        demo_product_def demo_user_def)
  have off: "conn_error (db offline_world) = Some ''buffering timed out''"
    by (simp add: offline_world_def)
  have dup: "conn_error (db S1_world) = None \<and>
             ''S1'' \<in> set (map s_name (Series_docs (db S1_world)))"
    by (simp add: sw demo_store_def)
  have m: "ObjectIdText 9 \<notin> set (map (\<lambda>d. ObjectIdText (p_id d)) (Product_docs (db demo_world)))"
    by (simp add: demo_world_def demo_store_def demo_product_def)
  note t1 = series_product_roundtrip [where w = demo_world and w' = S1_world
        and s = "\<lparr>s_id = 4, s_name = ''S1''\<rparr>" and b = S1_body and q = "ObjectIdText 9"
        and i = 9]
  note t2 = series_product_roundtrip [where w = offline_world and q = "ObjectIdText 2"
        and i = 2 and err = "''buffering timed out''"]
  note t3 = series_product_roundtrip [where w = S1_world]
  note t4 = series_product_roundtrip [where w = demo_world and q = "OtherText ''abc''"
        and x = "''abc''"]
  have a: "post_series ''S1'' demo_world =
             (Responded 201 (Text ''Series created successfully''), S1_world)"
  proof -
    have "fst (post_series ''S1'' demo_world) =
            Responded 201 (Text ''Series created successfully'')"
      using t1 pre by blast
    then show ?thesis
      by (simp add: S1_world_def prod_eq_iff)
  qed
  have r1: "fst (post_products S1_body S1_world) =
              Responded 201 (Text ''Product created successfully'') \<and>
            fst (get_product_by_id (ObjectIdText (newObjectId (db S1_world)))
                   (snd (post_products S1_body S1_world))) =
              Responded 200
                (Json (product_toJSON
                   (new_Product S1_body (newObjectId (db S1_world))
                      (s_id \<lparr>s_id = 4, s_name = ''S1''\<rparr>), Some \<lparr>s_id = 4, s_name = ''S1''\<rparr>)))"
    using t1 a b c by simp
  have r2: "fst (post_series ''S1'' offline_world) = Responded 500 (Text ''buffering timed out'')"
    using t2 off by blast
  have r3: "fst (post_series ''S1'' S1_world) =
     Responded 500 (Text ''E11000 duplicate key error collection: series index: name_1'')"
    using t3 dup by blast
  have r4: "fst (get_product_by_id (ObjectIdText 9) demo_world) =
              Responded 404 (Text ''Product not found'')"
    using t1 m pre by blast
  have r5: "fst (get_product_by_id (OtherText ''abc'') demo_world) =
     Responded 500 (Text (''Cast to ObjectId failed for value '' @ ''abc''))"
    using t4 by blast
  have r6: "fst (get_product_by_id (ObjectIdText 2) offline_world) =
     Responded 500 (Text ''buffering timed out'')"
    using t2 off by blast
  show ?thesis
    using a r1 r2 r3 r4 r5 r6
    by (simp add: n product_toJSON_def new_Product_def opt_field_def populated_toJSON_def
        S1_body_def demo_body_def)
qed

text \<open>
  Claim C7 as stated fails in both halves. Not every store takes the Series: on the store
  that is not reachable the creation is answered 500 and nothing is stored. And a product
  id that is no ObjectId is the id of no product, yet reading it is answered 500, not 404.
\<close>

theorem series_product_roundtrip_counterexample:
  "fst (post_series ''S1'' offline_world) = Responded 500 (Text ''buffering timed out'') \<and>
   db (snd (post_series ''S1'' offline_world)) = db offline_world \<and>
   OtherText ''abc'' \<notin> set (map (\<lambda>d. ObjectIdText (p_id d)) (Product_docs (db demo_world))) \<and>
   fst (get_product_by_id (OtherText ''abc'') demo_world) =
     Responded 500 (Text ''Cast to ObjectId failed for value abc'') \<and>
   fst (get_product_by_id (OtherText ''abc'') demo_world) \<noteq>
     Responded 404 (Text ''Product not found'')"
  by (simp add: post_series_def Series_save_def required_ok_def get_product_by_id_def
      Product_findById_def castObjectId_def log_op_def Let_def offline_world_def
      demo_world_def demo_store_def)

end
